theory Spec2Isabelle
  imports Complex_Main
begin

section \<open>JavaScript values\<close>

text \<open>
  Timestamps are epoch milliseconds. A \<open>Date\<close> object is either invalid (its \<open>getTime()\<close>
  is NaN) or holds such a timestamp. Numbers are modelled as exact reals, with NaN as a
  separate value where the source tests for it; rounding of IEEE doubles and the
  infinities are outside the model.
\<close>

datatype js_date = InvalidDate | Date int

datatype js_number = NaN | Num real

datatype js_error = StoreError

text \<open>\<open>new Date(x)\<close> for a state variable that is \<open>null\<close> or a Date: \<open>new Date(null)\<close> is the epoch.\<close>

definition new_Date :: "js_date option \<Rightarrow> js_date" where
  "new_Date x = (case x of None \<Rightarrow> Date 0 | Some d \<Rightarrow> d)"

text \<open>\<open>(a - b) / (1000 * 60 * 60)\<close> on two Date objects.\<close>

definition hours_between :: "js_date \<Rightarrow> js_date \<Rightarrow> js_number" where
  "hours_between a b =
     (case (a, b) of
        (Date x, Date y) \<Rightarrow> Num (real_of_int (x - y) / (1000 * 60 * 60))
      | _ \<Rightarrow> NaN)"

text \<open>
  The relational operators on strings compare code units from the left; a proper prefix
  is smaller.
\<close>

fun js_str_le :: "string \<Rightarrow> string \<Rightarrow> bool" where
  "js_str_le [] ys = True"
| "js_str_le (x # xs) [] = False"
| "js_str_le (x # xs) (y # ys) =
     (if x = y then js_str_le xs ys else (of_char x :: nat) < of_char y)"

section \<open>Records of the remote store\<close>

record device =
  dev_id :: string
  dev_group :: string
  dev_status :: string
  dev_token :: string
  dev_client_record :: string

record rate_group =
  grp_id :: string
  price :: real

record happy_hour =
  hh_group :: string
  hh_status :: string
  hh_days :: string
  start_time :: string
  end_time :: string
  discount_percentage :: real
  fixed_rate :: real

text \<open>
  What the pricing code reads from the store. \<open>getOne\<close> rejects (\<open>None\<close>) when the record
  is missing or the request fails; \<open>happy_hours = None\<close> is a rejected \<open>getList\<close>.
  An unset text field is the empty string and an unset number field is 0, both falsy.
\<close>

record remote =
  devices :: "string \<Rightarrow> device option"
  groups :: "string \<Rightarrow> rate_group option"
  happy_hours :: "happy_hour list option"

text \<open>
  The weekday name and the 24-hour \<open>HH:MM\<close> string that the runtime's locale formatting
  gives for the current instant.
\<close>

record clock =
  currentDay :: string
  currentTime :: string

section \<open>State of the SessionManager component\<close>

text \<open>
  The React state variables of the component. The session id is only ever tested for
  truthiness, so \<open>null\<close> and the empty string are both \<open>[]\<close>.
\<close>

record sm_state =
  sessionId :: string
  inTime :: "js_date option"
  outTime :: "js_date option"
  remainingTime :: "int \<times> int \<times> int"
  isSessionActive :: bool
  notificationShown :: bool
  deviceInfo :: "device option"
  groupInfo :: "rate_group option"
  sessionCost :: real
  error :: "string option"

section \<open>Pricing: fetchDeviceGroupAndCalculateCost\<close>

record cost_details =
  baseCost :: real
  finalCost :: real
  discountRate :: real
  discountAmount :: real
  happyHourApplied :: bool

text \<open>The function returns the bare number 0 when it is called without a device id.\<close>

datatype cost_return = BareZero | CostDetails cost_details

definition zero_cost :: cost_details where
  "zero_cost = \<lparr>baseCost = 0, finalCost = 0, discountRate = 0, discountAmount = 0,
                 happyHourApplied = False\<rparr>"

text \<open>The callers' \<open>costDetails.finalCost || 0\<close> and its siblings.\<close>

definition finalCost_or0 :: "cost_return \<Rightarrow> real" where
  "finalCost_or0 c = (case c of BareZero \<Rightarrow> 0 | CostDetails d \<Rightarrow> finalCost d)"

definition discountAmount_or0 :: "cost_return \<Rightarrow> real" where
  "discountAmount_or0 c = (case c of BareZero \<Rightarrow> 0 | CostDetails d \<Rightarrow> discountAmount d)"

definition discountRate_or0 :: "cost_return \<Rightarrow> real" where
  "discountRate_or0 c = (case c of BareZero \<Rightarrow> 0 | CostDetails d \<Rightarrow> discountRate d)"

definition baseCost_or0 :: "cost_return \<Rightarrow> real" where
  "baseCost_or0 c = (case c of BareZero \<Rightarrow> 0 | CostDetails d \<Rightarrow> baseCost d)"

text \<open>\<open>isNaN(validDuration) || validDuration <= 0\<close> replaces the duration by 1.\<close>

definition validDuration :: "js_number \<Rightarrow> real" where
  "validDuration d = (case d of NaN \<Rightarrow> 1 | Num x \<Rightarrow> if x \<le> 0 then 1 else x)"

text \<open>
  The store's answer to
  \<open>getList(1, 50, {filter: group = g && status = "Active" && days = day})\<close>.
\<close>

definition happy_hours_query :: "string \<Rightarrow> string \<Rightarrow> happy_hour list \<Rightarrow> happy_hour list" where
  "happy_hours_query g day hs =
     take 50 (filter (\<lambda>h. hh_group h = g \<and> hh_status h = ''Active'' \<and> hh_days h = day) hs)"

definition in_window :: "string \<Rightarrow> happy_hour \<Rightarrow> bool" where
  "in_window t h = (js_str_le (start_time h) t \<and> js_str_le t (end_time h))"

text \<open>The body of the \<open>if\<close> inside the loop, for the window the loop stops at.\<close>

definition apply_happy_hour :: "real \<Rightarrow> real \<Rightarrow> real \<Rightarrow> happy_hour \<Rightarrow> cost_details" where
  "apply_happy_hour hourlyRate vd base h =
     (if discount_percentage h > 0 then
        \<lparr>baseCost = base,
         finalCost = base - base * (discount_percentage h / 100),
         discountRate = discount_percentage h,
         discountAmount = base * (discount_percentage h / 100),
         happyHourApplied = True\<rparr>
      else if fixed_rate h > 0 then
        \<lparr>baseCost = base,
         finalCost = fixed_rate h * vd,
         discountRate = (if base > 0 then ((base - fixed_rate h * vd) / base) * 100 else 0),
         discountAmount = base - fixed_rate h * vd,
         happyHourApplied = True\<rparr>
      else
        \<lparr>baseCost = base, finalCost = base, discountRate = 0, discountAmount = 0,
         happyHourApplied = False\<rparr>)"

text \<open>
  The cost computation once the group and its price are known. A rejected happy-hour
  query is caught by the inner \<open>try\<close> and leaves the base cost undiscounted.
\<close>

definition calculate_cost :: "remote \<Rightarrow> clock \<Rightarrow> rate_group \<Rightarrow> js_number \<Rightarrow> cost_details" where
  "calculate_cost rm ck g durationHours =
     (let hourlyRate = price g;
          vd = validDuration durationHours;
          base = hourlyRate * vd;
          plain = \<lparr>baseCost = base, finalCost = base, discountRate = 0, discountAmount = 0,
                   happyHourApplied = False\<rparr>
      in case happy_hours rm of
           None \<Rightarrow> plain
         | Some hs \<Rightarrow>
             (case find (in_window (currentTime ck))
                     (happy_hours_query (grp_id g) (currentDay ck) hs) of
                None \<Rightarrow> plain
              | Some h \<Rightarrow> apply_happy_hour hourlyRate vd base h))"

text \<open>
  The whole function. Every rejected store call is inside the outer \<open>try\<close>, whose \<open>catch\<close>
  sets the displayed cost to 0 and falls through to the zero result; the state keeps the
  \<open>setDeviceInfo\<close> and \<open>setGroupInfo\<close> already made. The result is a sum so that the
  callers' own \<open>catch\<close> blocks have a branch.
\<close>

definition fetchDeviceGroupAndCalculateCost ::
  "remote \<Rightarrow> clock \<Rightarrow> string \<Rightarrow> js_number \<Rightarrow> sm_state \<Rightarrow> (js_error + cost_return) \<times> sm_state" where
  "fetchDeviceGroupAndCalculateCost rm ck deviceId durationHours s =
     (if deviceId = [] then (Inr BareZero, s)
      else
        (case devices rm deviceId of
           None \<Rightarrow> (Inr (CostDetails zero_cost), s\<lparr>sessionCost := 0\<rparr>)
         | Some dev \<Rightarrow>
            (let s1 = s\<lparr>deviceInfo := Some dev\<rparr>
             in if dev_group dev = [] then (Inr (CostDetails zero_cost), s1\<lparr>sessionCost := 0\<rparr>)
                else
                  (case groups rm (dev_group dev) of
                     None \<Rightarrow> (Inr (CostDetails zero_cost), s1\<lparr>sessionCost := 0\<rparr>)
                   | Some g \<Rightarrow>
                      (let s2 = s1\<lparr>groupInfo := Some g\<rparr>
                       in if price g = 0
                          then (Inr (CostDetails zero_cost), s2\<lparr>sessionCost := 0\<rparr>)
                          else (let cd = calculate_cost rm ck g durationHours
                                in (Inr (CostDetails cd), s2\<lparr>sessionCost := finalCost cd\<rparr>)))))))"

section \<open>Sessions, writes and other effects\<close>

datatype session_status = Booked | Active | Occupied | Extended | Closed

record session =
  sess_id :: string
  sess_device :: string
  sess_status :: session_status
  sess_in_time :: "js_date option"
  sess_out_time :: "js_date option"
  sess_duration :: real
  sess_session_total :: real

text \<open>The fields of an \<open>update\<close> call on the sessions collection; \<open>None\<close> is a field not sent.\<close>

record session_patch =
  p_status :: "session_status option"
  p_out_time :: "js_date option"
  p_duration :: "js_number option"
  p_amount_paid :: "real option"
  p_discount_amount :: "real option"
  p_discount_rate :: "real option"
  p_session_total :: "real option"
  p_total_amount :: "real option"

definition no_patch :: session_patch where
  "no_patch = \<lparr>p_status = None, p_out_time = None, p_duration = None, p_amount_paid = None,
                p_discount_amount = None, p_discount_rate = None, p_session_total = None,
                p_total_amount = None\<rparr>"

text \<open>
  The texts shown to the user:
  \<^item> \<open>EndingSoon n\<close>: "Your session will end in n minutes. Please save your work."
  \<^item> \<open>SessionEnded\<close>: "Your session has ended. The system will log you out in 5 seconds."
  \<^item> \<open>SessionTimeEnded\<close>: "Your session time has ended. The system will log you out in 5 seconds."
  \<^item> \<open>LoggedOut\<close>: "You have been logged out due to session expiration."
  \<^item> \<open>EndedUpdateError\<close>: "Your session has ended, but there was an error updating the session status."
  \<^item> \<open>EndedPlain\<close>: "Your session has ended."
\<close>

datatype notification =
  EndingSoon int | SessionEnded | SessionTimeEnded | LoggedOut | EndedUpdateError | EndedPlain

text \<open>
  What a run of a handler issues, in order: calls on the remote store (recorded whether or
  not the store then accepts them), notifications (with the system-notification flag),
  changes of local persistence and of the auth store, the broadcast
  \<open>enable-kiosk-mode\<close> event with its reason and force flag, a page reload, a timer
  with its delay in milliseconds and what its callback does, and the callbacks to the
  parent component.
\<close>

datatype effect =
    SessionUpdate string session_patch
  | SessionLogCreate string string real
  | DeviceUpdate string string string string
  | ShowNotification notification bool
  | RemoveItem string
  | AuthStoreClear
  | SetFullScreen
  | DispatchKioskEvent string bool
  | Reload
  | SetTimeout nat "effect list"
  | OnSessionStateChange bool "session option"

text \<open>
  A stored JSON item: absent (or empty), not parsable, or parsed. Of the parsed object
  only the \<open>deviceId\<close> field is read; it is the empty string when the field is missing.
\<close>

datatype json_item = Missing | Unparsable | Parsed string

record local_storage =
  user_login_info :: json_item
  device_info :: json_item
  client_app_login :: bool

text \<open>
  The device id read from local persistence, \<open>[]\<close> for \<open>null\<close>: first
  \<open>user_login_info\<close>, then \<open>device_info\<close>, both inside one \<open>try\<close>.
\<close>

definition deviceId_from_localStorage :: "local_storage \<Rightarrow> string" where
  "deviceId_from_localStorage ls =
     (let second = (case device_info ls of Parsed d \<Rightarrow> d | _ \<Rightarrow> [])
      in case user_login_info ls of
           Unparsable \<Rightarrow> []
         | Missing \<Rightarrow> second
         | Parsed d \<Rightarrow> (if d \<noteq> [] then d else second))"

section \<open>The one-second tick: updateRemainingTime\<close>

text \<open>The local calendar fields of a Date: \<open>getFullYear()\<close>, \<open>getMonth()\<close>, \<open>getDate()\<close>.\<close>

record local_date =
  getFullYear :: int
  getMonth :: nat
  getDate :: nat

text \<open>
  What the handlers of the component read from outside it: the current instant, the runtime's
  local calendar, the remote store and wall clock for pricing, local persistence,
  whether \<open>session_logs.create\<close> resolves, and whether the Neutralino window API exists.
  The session \<open>update\<close> of the collection hook catches its own failures and never rejects.
\<close>

record sm_env =
  now_ms :: int
  calendar :: "int \<Rightarrow> local_date"
  store :: remote
  wall_clock :: clock
  localStorage :: local_storage
  session_logs_create_ok :: bool
  has_Neutralino :: bool

definition isYesterday :: "local_date \<Rightarrow> local_date \<Rightarrow> bool" where
  "isYesterday n e =
     (getDate n > getDate e \<or> getMonth n > getMonth e \<or> getFullYear n > getFullYear e)"

text \<open>The callback of the five-second logout timer.\<close>

definition logout_callback :: "bool \<Rightarrow> effect list" where
  "logout_callback neu =
     [RemoveItem ''user_login_info'', RemoveItem ''client_app_login'', AuthStoreClear,
      ShowNotification LoggedOut True]
     @ (if neu then [SetFullScreen] else [])
     @ [DispatchKioskEvent ''session-ended'' True, SetTimeout 1000 [Reload]]"

definition closed_patch :: "real \<Rightarrow> real \<Rightarrow> real \<Rightarrow> session_patch" where
  "closed_patch cost dAmount dRate =
     no_patch\<lparr>p_status := Some Closed, p_amount_paid := Some cost,
              p_discount_amount := Some dAmount, p_discount_rate := Some dRate,
              p_session_total := Some cost, p_total_amount := Some cost\<rparr>"

text \<open>
  The block that closes the session in the store. It reads the values captured when the
  callback was created (\<open>s\<close>) and adds its state changes to those already made (\<open>s1\<close>).
\<close>

definition close_session :: "sm_env \<Rightarrow> sm_state \<Rightarrow> sm_state \<Rightarrow> sm_state \<times> effect list" where
  "close_session env s s1 =
     (let known = (case deviceInfo s of None \<Rightarrow> [] | Some d \<Rightarrow> dev_id d);
          deviceId = (if known \<noteq> [] then known
                      else deviceId_from_localStorage (localStorage env));
          priced =
            (if known \<noteq> [] then
               (case fetchDeviceGroupAndCalculateCost (store env) (wall_clock env) known
                       (hours_between (new_Date (outTime s)) (new_Date (inTime s))) s1 of
                  (Inr cd, s') \<Rightarrow>
                    (finalCost_or0 cd, discountAmount_or0 cd, discountRate_or0 cd, s')
                | (Inl e, s') \<Rightarrow> (sessionCost s, 0, 0, s'))
             else (sessionCost s, 0, 0, s1));
          cost = fst priced;
          dAmount = fst (snd priced);
          dRate = fst (snd (snd priced));
          s2 = snd (snd (snd priced));
          writes = [SessionUpdate (sessionId s) (closed_patch cost dAmount dRate),
                    SessionLogCreate (sessionId s) ''Closed'' cost]
      in if session_logs_create_ok env then
           (let release = (if deviceId \<noteq> []
                           then [DeviceUpdate deviceId ''Available'' [] []] else []);
                s3 = s2\<lparr>isSessionActive := False\<rparr>
            in if \<not> notificationShown s
               then (s3\<lparr>notificationShown := True\<rparr>,
                     writes @ release @
                     [ShowNotification SessionEnded True,
                      SetTimeout 5000 (logout_callback (has_Neutralino env))])
               else (s3, writes @ release))
         else
           (if \<not> notificationShown s
            then (s2\<lparr>notificationShown := True\<rparr>,
                  writes @ [ShowNotification EndedUpdateError True])
            else (s2, writes)))"

text \<open>The branch of the tick for \<open>diff <= 0\<close>; \<open>e\<close> is the scheduled end.\<close>

definition expired_tick :: "sm_env \<Rightarrow> sm_state \<Rightarrow> int \<Rightarrow> sm_state \<times> effect list" where
  "expired_tick env s e =
     (let s0 = s\<lparr>remainingTime := (0, 0, 0)\<rparr>;
          yesterday = isYesterday (calendar env (now_ms env)) (calendar env e);
          tracked = (isSessionActive s \<and> sessionId s \<noteq> []);
          notified =
            (if tracked \<and> \<not> notificationShown s
             then (s0\<lparr>notificationShown := True\<rparr>,
                   [ShowNotification (if yesterday then SessionEnded else SessionTimeEnded) True,
                    SetTimeout 5000 (logout_callback (has_Neutralino env))])
             else (s0, []))
      in if tracked \<and> yesterday
         then (let closed = close_session env s (fst notified)
               in (fst closed, snd notified @ snd closed))
         else notified)"

text \<open>The branch for \<open>diff > 0\<close>: the countdown and the five-minute warning.\<close>

definition running_tick :: "sm_state \<Rightarrow> int \<Rightarrow> sm_state \<times> effect list" where
  "running_tick s diff =
     (let hours = diff div (1000 * 60 * 60);
          diff1 = diff - hours * (1000 * 60 * 60);
          minutes = diff1 div (1000 * 60);
          diff2 = diff1 - minutes * (1000 * 60);
          seconds = diff2 div 1000;
          s0 = s\<lparr>remainingTime := (hours, minutes, seconds)\<rparr>;
          totalMinutesLeft = hours * 60 + minutes
      in if isSessionActive s \<and> sessionId s \<noteq> [] then
           (if totalMinutesLeft \<le> 5 \<and> totalMinutesLeft > 0 \<and> \<not> notificationShown s
            then (s0\<lparr>notificationShown := True\<rparr>,
                  [ShowNotification (EndingSoon totalMinutesLeft) True])
            else if totalMinutesLeft > 5 \<and> notificationShown s
            then (s0\<lparr>notificationShown := False\<rparr>, [])
            else (s0, []))
         else (s0, []))"

definition updateRemainingTime :: "sm_env \<Rightarrow> sm_state \<Rightarrow> sm_state \<times> effect list" where
  "updateRemainingTime env s =
     (case outTime s of
        None \<Rightarrow> (s\<lparr>remainingTime := (0, 0, 0)\<rparr>, [])
      | Some InvalidDate \<Rightarrow> (s\<lparr>remainingTime := (0, 0, 0)\<rparr>, [])
      | Some (Date e) \<Rightarrow>
          (if e - now_ms env \<le> 0 then expired_tick env s e
           else running_tick s (e - now_ms env)))"

text \<open>
  An invocation enters the block that closes the session, and waits there for the store,
  when the end has passed, the component tracks an active session and the calendar test
  is true.
\<close>

definition reaches_store :: "sm_env \<Rightarrow> sm_state \<Rightarrow> bool" where
  "reaches_store env s =
     (case outTime s of
        Some (Date e) \<Rightarrow>
          e - now_ms env \<le> 0 \<and> isSessionActive s \<and> sessionId s \<noteq> [] \<and>
          isYesterday (calendar env (now_ms env)) (calendar env e)
      | _ \<Rightarrow> False)"

text \<open>
  What such an invocation has changed in the component before its first store call: the
  countdown is zero and, if it showed the notification, the flag is set. Everything else
  (the displayed device, group and cost, \<open>isSessionActive\<close> false) it changes only after
  the store has answered.
\<close>

definition before_store :: "sm_state \<Rightarrow> sm_state" where
  "before_store s =
     (if notificationShown s then s\<lparr>remainingTime := (0, 0, 0)\<rparr>
      else s\<lparr>remainingTime := (0, 0, 0), notificationShown := True\<rparr>)"

text \<open>
  The tick is called by the one-second interval and, at once, by the effect whenever a
  change of \<open>notificationShown\<close>, \<open>deviceInfo\<close> or \<open>sessionCost\<close> re-creates the callback.
  So further invocations start while a close is still waiting for the store. They read
  the state as the waiting invocations have left it so far, and each of them runs to its
  own end. The function lists the effects of invocations that follow one another in
  this way while no store call of a waiting invocation has been answered; an invocation
  that makes no store call has finished when the next one starts.
\<close>

fun overlapping_ticks :: "sm_env list \<Rightarrow> sm_state \<Rightarrow> effect list" where
  "overlapping_ticks [] s = []"
| "overlapping_ticks (env # envs) s =
     snd (updateRemainingTime env s) @
     overlapping_ticks envs
       (if reaches_store env s then before_store s else fst (updateRemainingTime env s))"

section \<open>extendSession\<close>

text \<open>
  Besides the pricing store, the function depends on whether \<open>session_logs.create\<close>
  resolves. \<open>toISOString()\<close> of an invalid Date throws, which the \<open>catch\<close> of the function
  turns into the error message.
\<close>

definition add_one_hour :: "js_date \<Rightarrow> js_date" where
  "add_one_hour d = (case d of InvalidDate \<Rightarrow> InvalidDate | Date t \<Rightarrow> Date (t + 60 * 60 * 1000))"

definition times60 :: "js_number \<Rightarrow> js_number" where
  "times60 x = (case x of NaN \<Rightarrow> NaN | Num h \<Rightarrow> Num (h * 60))"

definition extended_patch :: "js_date \<Rightarrow> js_number \<Rightarrow> real \<Rightarrow> real \<Rightarrow> real \<Rightarrow> session_patch" where
  "extended_patch newOutTime minutes cost dAmount dRate =
     no_patch\<lparr>p_out_time := Some newOutTime, p_status := Some Extended,
              p_duration := Some minutes, p_session_total := Some cost,
              p_total_amount := Some cost, p_discount_amount := Some dAmount,
              p_discount_rate := Some dRate\<rparr>"

definition extendSession :: "sm_env \<Rightarrow> sm_state \<Rightarrow> sm_state \<times> effect list" where
  "extendSession env s =
     (if sessionId s = [] then (s, [])
      else
        (let newOutTime = add_one_hour (new_Date (outTime s));
             newDurationHours = hours_between newOutTime (new_Date (inTime s));
             newDurationMinutes = times60 newDurationHours;
             known = (case deviceInfo s of None \<Rightarrow> [] | Some d \<Rightarrow> dev_id d);
             priced =
               (if known \<noteq> [] then
                  (case fetchDeviceGroupAndCalculateCost (store env) (wall_clock env) known
                          newDurationHours s of
                     (Inr cd, s') \<Rightarrow>
                       (finalCost_or0 cd, discountAmount_or0 cd, discountRate_or0 cd, s')
                   | (Inl e, s') \<Rightarrow> (sessionCost s, 0, 0, s'))
                else (sessionCost s, 0, 0, s));
             newCost = fst priced;
             dAmount = fst (snd priced);
             dRate = fst (snd (snd priced));
             s1 = snd (snd (snd priced));
             writes = [SessionUpdate (sessionId s)
                         (extended_patch newOutTime newDurationMinutes newCost dAmount dRate),
                       SessionLogCreate (sessionId s) ''Extended'' 0]
         in if newOutTime = InvalidDate
            then (s1\<lparr>error := Some ''Failed to extend session''\<rparr>, [])
            else if session_logs_create_ok env
            then (s1\<lparr>outTime := Some newOutTime, isSessionActive := True\<rparr>, writes)
            else (s1\<lparr>error := Some ''Failed to extend session''\<rparr>, writes)))"

section \<open>checkExistingSession\<close>

text \<open>
  The duration handed to the pricing code: the stored minutes when that field is truthy,
  else the span between the two timestamps when both are present and valid, else 1 hour.
\<close>

definition session_durationHours :: "session \<Rightarrow> js_number" where
  "session_durationHours x =
     (if sess_duration x \<noteq> 0 then Num (sess_duration x / 60)
      else case (sess_in_time x, sess_out_time x) of
             (Some (Date i), Some (Date out)) \<Rightarrow> Num (real_of_int (out - i) / (1000 * 60 * 60))
           | _ \<Rightarrow> Num 1)"

definition active_patch :: session_patch where
  "active_patch = no_patch\<lparr>p_status := Some Active\<rparr>"

text \<open>
  \<open>allSessions\<close> is what the collection hook's \<open>getList\<close> returned (the empty list when the
  request failed); the function looks at its first element only.
\<close>

definition checkExistingSession ::
  "sm_env \<Rightarrow> session list \<Rightarrow> sm_state \<Rightarrow> session option \<times> sm_state \<times> effect list" where
  "checkExistingSession env allSessions s =
     (if deviceId_from_localStorage (localStorage env) = [] then (None, s, [])
      else case allSessions of
        [] \<Rightarrow> (None, s, [])
      | x # rest \<Rightarrow>
         (let s1 = s\<lparr>sessionId := sess_id x\<rparr>;
              s2 = (case sess_in_time x of None \<Rightarrow> s1 | Some d \<Rightarrow> s1\<lparr>inTime := Some d\<rparr>);
              s3 = (case sess_out_time x of None \<Rightarrow> s2 | Some d \<Rightarrow> s2\<lparr>outTime := Some d\<rparr>);
              promote = (if sess_status x = Booked \<or> sess_status x = Occupied
                         then [SessionUpdate (sess_id x) active_patch] else []);
              ended = (case sess_out_time x of Some (Date t) \<Rightarrow> now_ms env > t | _ \<Rightarrow> False);
              checked =
                (if sess_status x = Closed
                 then (s3\<lparr>isSessionActive := False\<rparr>, [ShowNotification EndedPlain False])
                 else if ended
                 then (s3\<lparr>isSessionActive := False\<rparr>,
                       promote @ [ShowNotification EndedPlain False])
                 else (s3\<lparr>isSessionActive := True\<rparr>, promote));
              s5 = (if sess_device x \<noteq> [] then
                      (case fetchDeviceGroupAndCalculateCost (store env) (wall_clock env)
                              (sess_device x) (session_durationHours x) (fst checked) of
                         (Inr cd, s') \<Rightarrow>
                           (if sess_session_total x > 0
                            then s'\<lparr>sessionCost := sess_session_total x\<rparr> else s')
                       | (Inl e, s') \<Rightarrow> s')
                    else fst checked)
          in (Some x, s5, snd checked)))"

section \<open>SessionStateManager: the 30-second polling check\<close>

record ssm_state =
  isChecking :: bool
  sessionActive :: bool
  sessionData :: "session option"
  isClientApp :: bool

text \<open>
  The \<open>deviceId\<close> prop (\<open>[]\<close> when absent), the current instant, whether the list request
  and the status update resolve, and whether the parent passed a callback.
\<close>

record ssm_env =
  deviceId_prop :: string
  ssm_now :: int
  sessions_getList_ok :: bool
  sessions_update_ok :: bool
  has_onSessionStateChange :: bool

text \<open>
  The store's answer to \<open>getList(1, 1, {filter, sort: '-created'})\<close> with the filter
  \<open>device = id && (status = Booked || Active || Occupied || Extended)\<close>: the newest
  open session of the device. The collection is kept in creation order.
\<close>

definition open_sessions_query :: "string \<Rightarrow> session list \<Rightarrow> session list" where
  "open_sessions_query dev coll =
     take 1 (filter (\<lambda>x. sess_device x = dev \<and>
                          (sess_status x = Booked \<or> sess_status x = Active \<or>
                           sess_status x = Occupied \<or> sess_status x = Extended))
                    (rev coll))"

definition report :: "ssm_env \<Rightarrow> bool \<Rightarrow> session option \<Rightarrow> effect list" where
  "report env a d = (if has_onSessionStateChange env then [OnSessionStateChange a d] else [])"

definition client_logout :: "effect list" where
  "client_logout =
     [AuthStoreClear, RemoveItem ''user_login_info'', RemoveItem ''client_app_login'',
      DispatchKioskEvent ''client-session-expired'' True, SetTimeout 1000 [Reload]]"

definition closed_only_patch :: session_patch where
  "closed_only_patch = no_patch\<lparr>p_status := Some Closed\<rparr>"

definition checkForActiveSessions ::
  "ssm_env \<Rightarrow> session list \<Rightarrow> ssm_state \<Rightarrow> bool option \<times> ssm_state \<times> effect list" where
  "checkForActiveSessions env coll st =
     (let inactive = st\<lparr>sessionActive := False, sessionData := None, isChecking := False\<rparr>
      in if deviceId_prop env = [] then (None, st\<lparr>isChecking := False\<rparr>, [])
         else if \<not> sessions_getList_ok env then (Some False, inactive, report env False None)
         else case open_sessions_query (deviceId_prop env) coll of
           [] \<Rightarrow> (Some False, inactive, report env False None)
         | x # rest \<Rightarrow>
            (let active = st\<lparr>sessionActive := True, sessionData := Some x, isChecking := False\<rparr>
             in case sess_out_time x of
                  None \<Rightarrow> (Some True, active, report env True (Some x))
                | Some d \<Rightarrow>
                   (if (case d of Date t \<Rightarrow> ssm_now env < t | InvalidDate \<Rightarrow> False)
                    then (Some True, active,
                          (if sess_status x \<noteq> Active
                           then [SessionUpdate (sess_id x) active_patch] else [])
                          @ report env True (Some x))
                    else (Some False, inactive,
                          (if isClientApp st \<and> sess_status x \<noteq> Closed
                           then SessionUpdate (sess_id x) closed_only_patch
                                # (if sessions_update_ok env then client_logout else [])
                           else [])
                          @ report env False None))))"

text \<open>
  What an accepted \<open>update\<close> does to the collection. The polling check sends the status
  field only.
\<close>

definition store_update :: "bool \<Rightarrow> effect \<Rightarrow> session list \<Rightarrow> session list" where
  "store_update ok f coll =
     (case f of
        SessionUpdate sid p \<Rightarrow>
          (if ok then
             map (\<lambda>x. if sess_id x = sid
                       then (case p_status p of None \<Rightarrow> x | Some v \<Rightarrow> x\<lparr>sess_status := v\<rparr>)
                       else x) coll
           else coll)
      | _ \<Rightarrow> coll)"

text \<open>
  Repeated polling: each check runs on the collection and the component state that the
  previous one left.
\<close>

fun polls :: "ssm_env list \<Rightarrow> session list \<Rightarrow> ssm_state \<Rightarrow> (session list \<times> ssm_state) \<times> effect list" where
  "polls [] coll st = ((coll, st), [])"
| "polls (env # envs) coll st =
     (let r = checkForActiveSessions env coll st;
          fx = snd (snd r);
          coll' = fold (store_update (sessions_update_ok env)) fx coll;
          r' = polls envs coll' (fst (snd r))
      in (fst r', fx @ snd r'))"

text \<open>
  The first render of the component: the initial values of its state variables.
\<close>

definition first_render :: ssm_state where
  "first_render =
     \<lparr>isChecking = True, sessionActive = False, sessionData = None, isClientApp = False\<rparr>"

text \<open>
  The component from its mount on. After the first render two effects run. One reads the
  persisted flag \<open>client_app_login\<close> and, if it is set, sets \<open>isClientApp\<close> for the renders
  to come. The other, which depends on \<open>deviceId\<close> only, calls \<open>checkForActiveSessions\<close>
  at once and then every 30 seconds. The function it calls is the one of the render in
  which the effect ran, and a state variable is a constant of its render: every check
  reads \<open>isClientApp\<close> as the first render had it, whatever the flag says then or
  later. The checks are given by their surroundings, all with the same \<open>deviceId\<close>.
\<close>

definition polling_since_mount ::
  "local_storage \<Rightarrow> ssm_env list \<Rightarrow> session list \<Rightarrow> (session list \<times> ssm_state) \<times> effect list" where
  "polling_since_mount ls envs coll =
     (let r = polls envs coll first_render
      in ((fst (fst r), (snd (fst r))\<lparr>isClientApp := client_app_login ls\<rparr>), snd r))"

section \<open>DeviceTokenMonitor: checkDeviceTokenAndLogin\<close>

text \<open>
  The claims of a decoded token payload that the code reads. A claim that is missing or
  falsy is the empty string; \<open>claim_exp\<close> is 0 when there is no expiry.
\<close>

record jwt_claims =
  claim_id :: string
  claim_sub :: string
  claim_user_id :: string
  claim_userId :: string
  claim_exp :: int

text \<open>
  Splitting a token at the dots and decoding its second segment: not three segments,
  three segments whose payload is not base64 JSON of an object, or the claims.
\<close>

datatype decoded = BadShape | BadPayload | Payload jwt_claims

record user =
  user_id :: string
  username :: string
  email :: string

datatype auth_model = NullModel | ClientRecord string | AuthUser user

text \<open>
  The monitor's own state and the client-wide auth store. The store keeps its content in
  the persisted entry \<open>pocketbase_auth\<close> and reads token and record back from it:
  \<open>None\<close> is the empty store, else the token and the record.
\<close>

record tm_state =
  lastCheckedToken :: string
  authStore :: "(string \<times> auth_model) option"

text \<open>
  The surroundings of one check: the \<open>deviceId\<close> prop, the device record the store
  returns (\<open>None\<close> when \<open>getOne\<close> rejects), the decoding of tokens, the current time in
  seconds, the two identity collections, whether \<open>authStore.save\<close> returns normally,
  what \<open>authStore.isValid\<close> reports for a token the store holds, whether the text of
  \<open>client_record\<close> parses as JSON to a truthy value, and whether the parent passed
  \<open>onAutoLogin\<close>.
\<close>

record tm_env =
  tm_deviceId :: string
  tm_device :: "device option"
  decode :: "string \<Rightarrow> decoded"
  now_seconds :: int
  clients :: "string \<Rightarrow> user option"
  users :: "string \<Rightarrow> user option"
  save_ok :: bool
  isValid :: "string \<Rightarrow> bool"
  json_parses :: "string \<Rightarrow> bool"
  has_onAutoLogin :: bool

datatype login_effect = OnAutoLogin string string string

text \<open>
  \<open>authStore.save(token, record)\<close> together with the change listener that the client
  module registers on the store: the listener rewrites the persisted entry when token
  and record are both truthy and removes it otherwise. A save with a \<open>null\<close> record
  therefore leaves the store empty, whatever it held before.
\<close>

definition authStore_save :: "string \<Rightarrow> auth_model \<Rightarrow> (string \<times> auth_model) option" where
  "authStore_save tok m = (if tok \<noteq> [] \<and> m \<noteq> NullModel then Some (tok, m) else None)"

text \<open>\<open>authStore.isValid\<close>: false for the empty store.\<close>

definition authStore_isValid :: "tm_env \<Rightarrow> (string \<times> auth_model) option \<Rightarrow> bool" where
  "authStore_isValid env st = (case st of None \<Rightarrow> False | Some (tok, m) \<Rightarrow> isValid env tok)"

text \<open>\<open>pbclient.validateToken\<close>: shape and expiry.\<close>

definition validateToken :: "tm_env \<Rightarrow> string \<Rightarrow> bool" where
  "validateToken env tok =
     (if tok = [] then False
      else case decode env tok of
        BadShape \<Rightarrow> False
      | BadPayload \<Rightarrow> False
      | Payload c \<Rightarrow> \<not> (claim_exp c \<noteq> 0 \<and> claim_exp c < now_seconds env))"

text \<open>\<open>tokenData.id || tokenData.sub || tokenData.user_id || tokenData.userId\<close>.\<close>

definition token_userId :: "jwt_claims \<Rightarrow> string" where
  "token_userId c =
     (if claim_id c \<noteq> [] then claim_id c
      else if claim_sub c \<noteq> [] then claim_sub c
      else if claim_user_id c \<noteq> [] then claim_user_id c
      else claim_userId c)"

definition displayUsername :: "user \<Rightarrow> string" where
  "displayUsername u =
     (if username u \<noteq> [] then username u
      else if email u \<noteq> [] then takeWhile (\<lambda>c. c \<noteq> CHR ''@'') (email u)
      else ''User'')"

definition notify_login :: "tm_env \<Rightarrow> user \<Rightarrow> login_effect list" where
  "notify_login env u =
     (if has_onAutoLogin env then [OnAutoLogin (user_id u) (displayUsername u) (tm_deviceId env)]
      else [])"

text \<open>
  The part after the token has been saved and \<open>authStore.isValid\<close> is true: the user is
  looked up in \<open>clients\<close>, then in \<open>users\<close>.
\<close>

definition login_valid :: "tm_env \<Rightarrow> string \<Rightarrow> tm_state \<Rightarrow> bool \<times> tm_state \<times> login_effect list" where
  "login_valid env tok w =
     (case decode env tok of
        BadShape \<Rightarrow> (False, w, [])
      | BadPayload \<Rightarrow> (False, w, [])
      | Payload c \<Rightarrow>
          (if token_userId c = [] then (False, w, [])
           else case clients env (token_userId c) of
             Some u \<Rightarrow> (True, w, notify_login env u)
           | None \<Rightarrow>
               (case users env (token_userId c) of
                  Some u \<Rightarrow> (True, w, notify_login env u)
                | None \<Rightarrow> (False, w, []))))"

text \<open>
  The part for \<open>authStore.isValid\<close> false: the user is looked up in \<open>clients\<close> only, and the
  token is saved again with the user record (a failure of that save is caught).
\<close>

definition login_manual :: "tm_env \<Rightarrow> string \<Rightarrow> tm_state \<Rightarrow> bool \<times> tm_state \<times> login_effect list" where
  "login_manual env tok w =
     (case decode env tok of
        BadShape \<Rightarrow> (False, w, [])
      | BadPayload \<Rightarrow> (False, w, [])
      | Payload c \<Rightarrow>
          (if token_userId c = [] then (False, w, [])
           else case clients env (token_userId c) of
             None \<Rightarrow> (False, w, [])
           | Some u \<Rightarrow>
               (True,
                (if save_ok env then w\<lparr>authStore := authStore_save tok (AuthUser u)\<rparr> else w),
                notify_login env u)))"

definition checkDeviceTokenAndLogin :: "tm_env \<Rightarrow> tm_state \<Rightarrow> bool \<times> tm_state \<times> login_effect list" where
  "checkDeviceTokenAndLogin env w =
     (if tm_deviceId env = [] then (False, w, [])
      else case tm_device env of
        None \<Rightarrow> (False, w, [])
      | Some dev \<Rightarrow>
          (if dev_token dev \<noteq> [] \<and> dev_token dev \<noteq> lastCheckedToken w then
             (let w1 = w\<lparr>lastCheckedToken := dev_token dev\<rparr>;
                  clientRecord = (if dev_client_record dev \<noteq> [] \<and> json_parses env (dev_client_record dev)
                                  then ClientRecord (dev_client_record dev) else NullModel)
              in if \<not> validateToken env (dev_token dev) then (False, w1, [])
                 else if \<not> save_ok env then (False, w1\<lparr>authStore := None\<rparr>, [])
                 else (let w2 = w1\<lparr>authStore := authStore_save (dev_token dev) clientRecord\<rparr>
                       in if authStore_isValid env (authStore w2)
                          then login_valid env (dev_token dev) w2
                          else login_manual env (dev_token dev) w2))
           else if dev_token dev = [] \<and> lastCheckedToken w \<noteq> []
           then (False, w\<lparr>lastCheckedToken := []\<rparr>, [])
           else (False, w, [])))"

section \<open>App: the kiosk lock\<close>

record window =
  width :: nat
  height :: nat
  resizable :: bool
  borderless :: bool
  alwaysOnTop :: bool
  maximize :: bool
  fullScreen :: bool

text \<open>
  The state of the App component that the lock touches; \<open>keyboardHandler\<close> says whether
  the key-blocking listener is installed.
\<close>

record app_state =
  isLoggedIn :: bool
  isKioskMode :: bool
  hasActiveSession :: bool
  activeSessionData :: "session option"
  keyboardHandler :: bool
  win :: window

text \<open>The screen size and which calls of the native window API resolve.\<close>

record os_env =
  screen_width :: nat
  screen_height :: nat
  setSize_ok :: bool
  setFullScreen_ok :: bool
  isFullScreen_ok :: bool
  exitFullScreen_ok :: bool
  center_ok :: bool

record key_event =
  ctrlKey :: bool
  altKey :: bool
  metaKey :: bool
  key :: string

text \<open>The listener's test for the keys it swallows.\<close>

definition blocked_key :: "key_event \<Rightarrow> bool" where
  "blocked_key e = (ctrlKey e \<or> altKey e \<or> metaKey e \<or> key e = ''Tab'')"

definition kiosk_window :: "os_env \<Rightarrow> window \<Rightarrow> window" where
  "kiosk_window os w =
     w\<lparr>width := screen_width os, height := screen_height os, resizable := False,
       borderless := True, alwaysOnTop := True, maximize := True\<rparr>"

definition normal_window :: "window \<Rightarrow> window" where
  "normal_window w =
     w\<lparr>width := 600, height := 800, resizable := False, borderless := False,
       alwaysOnTop := False, maximize := False\<rparr>"

text \<open>A rejected call jumps to the \<open>catch\<close>, which sets \<open>isKioskMode\<close> to false.\<close>

definition enableKioskMode :: "os_env \<Rightarrow> app_state \<Rightarrow> app_state" where
  "enableKioskMode os a =
     (if \<not> setSize_ok os then a\<lparr>isKioskMode := False\<rparr>
      else if \<not> setFullScreen_ok os
      then a\<lparr>win := kiosk_window os (win a), isKioskMode := False\<rparr>
      else if \<not> isFullScreen_ok os
      then a\<lparr>win := (kiosk_window os (win a))\<lparr>fullScreen := True\<rparr>, isKioskMode := False\<rparr>
      else a\<lparr>win := (kiosk_window os (win a))\<lparr>fullScreen := True\<rparr>,
             isKioskMode := True, keyboardHandler := True\<rparr>)"

text \<open>Here the \<open>catch\<close> only logs; what was done before the rejected call stays.\<close>

definition disableKioskMode :: "os_env \<Rightarrow> app_state \<Rightarrow> app_state" where
  "disableKioskMode os a =
     (if \<not> isFullScreen_ok os then a
      else if fullScreen (win a) \<and> \<not> exitFullScreen_ok os then a
      else (let w1 = (win a)\<lparr>fullScreen := False\<rparr>
            in if \<not> setSize_ok os then a\<lparr>win := w1\<rparr>
               else if \<not> center_ok os then a\<lparr>win := normal_window w1\<rparr>
               else a\<lparr>win := normal_window w1, keyboardHandler := False,
                      isKioskMode := False\<rparr>))"

definition handleSessionStateChange ::
  "os_env \<Rightarrow> bool \<Rightarrow> session option \<Rightarrow> app_state \<Rightarrow> app_state" where
  "handleSessionStateChange os isActive data a =
     (let a1 = a\<lparr>hasActiveSession := isActive, activeSessionData := data\<rparr>
      in if isActive \<and> isLoggedIn a then disableKioskMode os a1
         else if \<not> isActive then enableKioskMode os a1
         else a1)"

section \<open>Predicates used in the statements\<close>

text \<open>
  A failed lookup on the way to the hourly price: the device request is rejected, the
  device has no group, the group request is rejected, or the group has no price.
\<close>

definition lookup_failure :: "remote \<Rightarrow> string \<Rightarrow> bool" where
  "lookup_failure rm deviceId =
     (case devices rm deviceId of
        None \<Rightarrow> True
      | Some dev \<Rightarrow>
          dev_group dev = [] \<or>
          (case groups rm (dev_group dev) of None \<Rightarrow> True | Some g \<Rightarrow> price g = 0))"

text \<open>No group has a negative price and no discount window takes off more than 100 percent.\<close>

definition sane_prices :: "remote \<Rightarrow> bool" where
  "sane_prices rm =
     ((\<forall>i g. groups rm i = Some g \<longrightarrow> 0 \<le> price g) \<and>
      (\<forall>hs. happy_hours rm = Some hs \<longrightarrow> (\<forall>h \<in> set hs. discount_percentage h \<le> 100)))"

text \<open>The component holds a device record with an id: \<open>deviceInfo && deviceInfo.id\<close>.\<close>

definition device_loaded :: "sm_state \<Rightarrow> bool" where
  "device_loaded s = (case deviceInfo s of None \<Rightarrow> False | Some d \<Rightarrow> dev_id d \<noteq> [])"

section \<open>Concrete inputs\<close>

text \<open>
  A terminal \<open>pc1\<close> in rate group \<open>g1\<close> at 100 per hour, one discount window on Mondays
  from 10:00 to 12:00, and a Monday at 11:00.
\<close>

definition ex_device :: device where
  "ex_device = \<lparr>dev_id = ''pc1'', dev_group = ''g1'', dev_status = ''In-Use'',
                 dev_token = [], dev_client_record = []\<rparr>"

definition ex_group :: rate_group where
  "ex_group = \<lparr>grp_id = ''g1'', price = 100\<rparr>"

definition ex_window :: "real \<Rightarrow> real \<Rightarrow> happy_hour" where
  "ex_window pct fixed =
     \<lparr>hh_group = ''g1'', hh_status = ''Active'', hh_days = ''Monday'',
      start_time = ''10:00'', end_time = ''12:00'',
      discount_percentage = pct, fixed_rate = fixed\<rparr>"

definition ex_remote :: "happy_hour list \<Rightarrow> remote" where
  "ex_remote hs =
     \<lparr>devices = (\<lambda>i. if i = ''pc1'' then Some ex_device else None),
      groups = (\<lambda>i. if i = ''g1'' then Some ex_group else None),
      happy_hours = Some hs\<rparr>"

definition ex_remote_no_group :: remote where
  "ex_remote_no_group =
     \<lparr>devices = (\<lambda>i. if i = ''pc1'' then Some ex_device else None),
      groups = (\<lambda>i. None),
      happy_hours = Some []\<rparr>"

definition ex_clock :: clock where
  "ex_clock = \<lparr>currentDay = ''Monday'', currentTime = ''11:00''\<rparr>"

text \<open>A tracked session \<open>s1\<close> that started at the epoch and is scheduled to end one hour later.\<close>

definition ex_state :: sm_state where
  "ex_state =
     \<lparr>sessionId = ''s1'', inTime = Some (Date 0), outTime = Some (Date 3600000),
      remainingTime = (0, 0, 0), isSessionActive = True, notificationShown = False,
      deviceInfo = Some ex_device, groupInfo = None, sessionCost = 100, error = None\<rparr>"

section \<open>Reading the effects\<close>

text \<open>The store writes among the effects a handler issued, by collection, in order.\<close>

definition session_writes :: "effect list \<Rightarrow> (string \<times> session_patch) list" where
  "session_writes fx =
     concat (map (\<lambda>f. case f of SessionUpdate i p \<Rightarrow> [(i, p)] | _ \<Rightarrow> []) fx)"

definition log_writes :: "effect list \<Rightarrow> (string \<times> string \<times> real) list" where
  "log_writes fx =
     concat (map (\<lambda>f. case f of SessionLogCreate i t a \<Rightarrow> [(i, t, a)] | _ \<Rightarrow> []) fx)"

definition device_writes :: "effect list \<Rightarrow> (string \<times> string \<times> string \<times> string) list" where
  "device_writes fx =
     concat (map (\<lambda>f. case f of DeviceUpdate i st tok rec \<Rightarrow> [(i, st, tok, rec)] | _ \<Rightarrow> []) fx)"

definition notifications :: "effect list \<Rightarrow> notification list" where
  "notifications fx =
     concat (map (\<lambda>f. case f of ShowNotification n sys \<Rightarrow> [n] | _ \<Rightarrow> []) fx)"

definition timers :: "effect list \<Rightarrow> (nat \<times> effect list) list" where
  "timers fx =
     concat (map (\<lambda>f. case f of SetTimeout ms cb \<Rightarrow> [(ms, cb)] | _ \<Rightarrow> []) fx)"

section \<open>Calendar days\<close>

text \<open>The first date lies on an earlier calendar day than the second; the same day.\<close>

definition earlier_day :: "local_date \<Rightarrow> local_date \<Rightarrow> bool" where
  "earlier_day a b =
     (getFullYear a < getFullYear b \<or>
      (getFullYear a = getFullYear b \<and>
       (getMonth a < getMonth b \<or> (getMonth a = getMonth b \<and> getDate a < getDate b))))"

definition same_day :: "local_date \<Rightarrow> local_date \<Rightarrow> bool" where
  "same_day a b =
     (getFullYear a = getFullYear b \<and> getMonth a = getMonth b \<and> getDate a = getDate b)"

text \<open>
  A calendar for the examples: every instant of the first days of January 1970, in a
  time zone without offset.
\<close>

definition ex_calendar :: "int \<Rightarrow> local_date" where
  "ex_calendar t = \<lparr>getFullYear = 1970, getMonth = 0, getDate = nat (t div 86400000) + 1\<rparr>"

definition ex_storage :: local_storage where
  "ex_storage = \<lparr>user_login_info = Parsed ''pc1'', device_info = Parsed ''pc1'',
                  client_app_login = False\<rparr>"

definition ex_env :: "int \<Rightarrow> sm_env" where
  "ex_env t =
     \<lparr>now_ms = t, calendar = ex_calendar, store = ex_remote [], wall_clock = ex_clock,
      localStorage = ex_storage, session_logs_create_ok = True, has_Neutralino = True\<rparr>"

text \<open>The same with the 20 percent window in the store.\<close>

definition ex_env_discount :: "int \<Rightarrow> sm_env" where
  "ex_env_discount t =
     \<lparr>now_ms = t, calendar = ex_calendar, store = ex_remote [ex_window 20 0],
      wall_clock = ex_clock, localStorage = ex_storage, session_logs_create_ok = True,
      has_Neutralino = True\<rparr>"

text \<open>
  The session \<open>s1\<close> of terminal \<open>pc1\<close> as a store record with a given status, a polling
  check at a given instant, and the state of the polling component with a given
  \<open>isClientApp\<close>.
\<close>

definition ex_session :: "session_status \<Rightarrow> session" where
  "ex_session st =
     \<lparr>sess_id = ''s1'', sess_device = ''pc1'', sess_status = st,
      sess_in_time = Some (Date 0), sess_out_time = Some (Date 3600000),
      sess_duration = 60, sess_session_total = 100\<rparr>"

definition ex_poll :: "int \<Rightarrow> ssm_env" where
  "ex_poll t =
     \<lparr>deviceId_prop = ''pc1'', ssm_now = t, sessions_getList_ok = True,
      sessions_update_ok = True, has_onSessionStateChange = True\<rparr>"

definition ex_ssm_state :: "bool \<Rightarrow> ssm_state" where
  "ex_ssm_state client =
     \<lparr>isChecking = True, sessionActive = False, sessionData = None, isClientApp = client\<rparr>"







text \<open>A 1920 by 1080 screen on which every window call succeeds, and a locked terminal.\<close>

definition ex_os :: os_env where
  "ex_os = \<lparr>screen_width = 1920, screen_height = 1080, setSize_ok = True,
             setFullScreen_ok = True, isFullScreen_ok = True, exitFullScreen_ok = True,
             center_ok = True\<rparr>"

definition ex_locked :: "bool \<Rightarrow> app_state" where
  "ex_locked logged =
     \<lparr>isLoggedIn = logged, isKioskMode = True, hasActiveSession = False,
      activeSessionData = None, keyboardHandler = True,
      win = \<lparr>width = 1920, height = 1080, resizable = False, borderless = True,
             alwaysOnTop = True, maximize = True, fullScreen = True\<rparr>\<rparr>"

section \<open>Pricing\<close>

lemma fetch_result_cases:
  "fst (fetchDeviceGroupAndCalculateCost rm ck deviceId d s) =
     (if deviceId = [] then Inr BareZero
      else
        (case devices rm deviceId of
           None \<Rightarrow> Inr (CostDetails zero_cost)
         | Some dev \<Rightarrow>
            (if dev_group dev = [] then Inr (CostDetails zero_cost)
             else
               (case groups rm (dev_group dev) of
                  None \<Rightarrow> Inr (CostDetails zero_cost)
                | Some g \<Rightarrow>
                   (if price g = 0 then Inr (CostDetails zero_cost)
                    else Inr (CostDetails (calculate_cost rm ck g d)))))))"
  by (simp add: fetchDeviceGroupAndCalculateCost_def Let_def split: option.splits)

lemmas ex_pricing_defs =
  ex_remote_def ex_device_def ex_group_def ex_window_def ex_clock_def
  happy_hours_query_def in_window_def

lemmas pricing_defs =
  calculate_cost_def apply_happy_hour_def validDuration_def Let_def

text \<open>
  C3, as the code has it. Let the device resolve to a rate group with hourly price \<open>r\<close>,
  let the duration be \<open>d > 0\<close> hours, and let the first window of the happy-hour query
  (the group's windows that are Active on the current weekday) whose range contains the
  current clock time have a discount percentage \<open>p > 0\<close>. Then the function returns
  \<open>baseCost = r * d\<close>, \<open>discountAmount = baseCost * p / 100\<close> and
  \<open>finalCost = baseCost - discountAmount\<close>. (For \<open>r = 0\<close> it returns the zero result,
  which satisfies the same equations.)
\<close>

theorem percentage_discount:
  assumes "deviceId \<noteq> []" and "devices rm deviceId = Some dev" and "dev_group dev \<noteq> []"
    and "groups rm (dev_group dev) = Some g" and "price g = r"
    and "happy_hours rm = Some hs"
    and "find (in_window (currentTime ck)) (happy_hours_query (grp_id g) (currentDay ck) hs) = Some h"
    and "discount_percentage h = p" and "0 < p" and "0 < d"
  shows "\<exists>c. fst (fetchDeviceGroupAndCalculateCost rm ck deviceId (Num d) s) = Inr c \<and>
           baseCost_or0 c = r * d \<and>
           discountAmount_or0 c = r * d * p / 100 \<and>
           finalCost_or0 c = r * d - r * d * p / 100"
  using assms
  by (simp add: fetch_result_cases pricing_defs baseCost_or0_def discountAmount_or0_def
      finalCost_or0_def zero_cost_def)

text \<open>
  The instance of C3 named in the specification: 100 per hour, 2 hours, 20 percent give
  a base cost of 200, a discount of 40 and a final cost of 160.
\<close>

theorem percentage_discount_witness:
  "\<exists>c. fst (fetchDeviceGroupAndCalculateCost (ex_remote [ex_window 20 0]) ex_clock ''pc1''
              (Num 2) ex_state) = Inr c \<and>
       baseCost_or0 c = 200 \<and> discountAmount_or0 c = 40 \<and> finalCost_or0 c = 160"
  using percentage_discount [of "''pc1''" "ex_remote [ex_window 20 0]" ex_device ex_group 100
      "[ex_window 20 0]" ex_clock "ex_window 20 0" 20 2 ex_state]
  by (simp add: ex_pricing_defs)

text \<open>
  C3 as stated, for every duration, fails at a duration of 0 hours (a session whose end
  equals its start): the duration is replaced by 1 hour, so the base cost is 100 and not
  \<open>100 * 0\<close>.
\<close>

theorem percentage_discount_counterexample:
  "fst (fetchDeviceGroupAndCalculateCost (ex_remote [ex_window 20 0]) ex_clock ''pc1''
         (Num 0) ex_state)
     = Inr (CostDetails \<lparr>baseCost = 100, finalCost = 80, discountRate = 20,
                          discountAmount = 20, happyHourApplied = True\<rparr>)
   \<and> (100::real) \<noteq> 100 * 0"
  by (simp add: fetch_result_cases pricing_defs ex_pricing_defs)

text \<open>
  C4, as the code has it. Let the device resolve to a rate group with hourly price
  \<open>r \<noteq> 0\<close>, let the duration be \<open>d > 0\<close> hours, and let the first window of the
  happy-hour query whose range contains the current clock time have no positive
  percentage and a fixed rate \<open>f > 0\<close>. Then \<open>finalCost = f * d\<close>,
  \<open>discountAmount = baseCost - finalCost\<close>, and the applied rate is
  \<open>discountAmount / baseCost * 100\<close> when the base cost is positive and 0 otherwise.
\<close>

theorem fixed_rate_discount:
  assumes "deviceId \<noteq> []" and "devices rm deviceId = Some dev" and "dev_group dev \<noteq> []"
    and "groups rm (dev_group dev) = Some g" and "price g = r" and "r \<noteq> 0"
    and "happy_hours rm = Some hs"
    and "find (in_window (currentTime ck)) (happy_hours_query (grp_id g) (currentDay ck) hs) = Some h"
    and "discount_percentage h \<le> 0" and "fixed_rate h = f" and "0 < f" and "0 < d"
  shows "\<exists>c. fst (fetchDeviceGroupAndCalculateCost rm ck deviceId (Num d) s) = Inr c \<and>
           baseCost_or0 c = r * d \<and>
           finalCost_or0 c = f * d \<and>
           discountAmount_or0 c = r * d - f * d \<and>
           discountRate_or0 c = (if 0 < r * d then (r * d - f * d) / (r * d) * 100 else 0)"
  using assms
  by (simp add: fetch_result_cases pricing_defs baseCost_or0_def discountAmount_or0_def
      finalCost_or0_def discountRate_or0_def)

text \<open>
  The instance of C4 named in the specification: 100 per hour, 2 hours, a fixed rate of
  60 per hour give a final cost of 120, a discount of 80 and an applied rate of 40.
\<close>

theorem fixed_rate_discount_witness:
  "\<exists>c. fst (fetchDeviceGroupAndCalculateCost (ex_remote [ex_window 0 60]) ex_clock ''pc1''
              (Num 2) ex_state) = Inr c \<and>
       baseCost_or0 c = 200 \<and> finalCost_or0 c = 120 \<and> discountAmount_or0 c = 80 \<and>
       discountRate_or0 c = 40"
  using fixed_rate_discount [of "''pc1''" "ex_remote [ex_window 0 60]" ex_device ex_group 100
      "[ex_window 0 60]" ex_clock "ex_window 0 60" 60 2 ex_state]
  by (simp add: ex_pricing_defs)

text \<open>
  C4 as stated, for every duration, fails at a duration of 0 hours: the fixed rate is
  charged for 1 hour, so the final cost is 60 and not \<open>60 * 0\<close>.
\<close>

theorem fixed_rate_discount_counterexample:
  "fst (fetchDeviceGroupAndCalculateCost (ex_remote [ex_window 0 60]) ex_clock ''pc1''
         (Num 0) ex_state)
     = Inr (CostDetails \<lparr>baseCost = 100, finalCost = 60, discountRate = 40,
                          discountAmount = 40, happyHourApplied = True\<rparr>)
   \<and> (60::real) \<noteq> 60 * 0"
  by (simp add: fetch_result_cases pricing_defs ex_pricing_defs)

lemma validDuration_pos: "0 < validDuration d"
  by (simp add: validDuration_def split: js_number.split)

lemma apply_happy_hour_nonneg:
  assumes "0 \<le> base" and "0 < vd" and "discount_percentage h \<le> 100"
  shows "0 \<le> finalCost (apply_happy_hour r vd base h) \<and>
         0 \<le> baseCost (apply_happy_hour r vd base h)"
proof -
  have "base * (discount_percentage h / 100) \<le> base * 1"
    using assms by (intro mult_left_mono) auto
  then show ?thesis using assms by (simp add: apply_happy_hour_def)
qed

lemma find_in_set: "find P xs = Some x \<Longrightarrow> x \<in> set xs"
  by (induction xs) (auto split: if_splits)

lemma calculate_cost_nonneg:
  assumes "0 \<le> price g"
    and "\<forall>hs. happy_hours rm = Some hs \<longrightarrow> (\<forall>h \<in> set hs. discount_percentage h \<le> 100)"
  shows "0 \<le> finalCost (calculate_cost rm ck g d) \<and> 0 \<le> baseCost (calculate_cost rm ck g d)"
proof -
  have base: "0 \<le> price g * validDuration d"
    using assms(1) validDuration_pos [of d] by simp
  show ?thesis
  proof (cases "happy_hours rm")
    case None
    then show ?thesis using base by (simp add: calculate_cost_def Let_def)
  next
    case (Some hs)
    note windows = this
    show ?thesis
    proof (cases "find (in_window (currentTime ck))
                    (happy_hours_query (grp_id g) (currentDay ck) hs)")
      case None
      then show ?thesis using windows base by (simp add: calculate_cost_def Let_def)
    next
      case (Some h)
      then have "h \<in> set (happy_hours_query (grp_id g) (currentDay ck) hs)"
        by (rule find_in_set)
      then have "h \<in> set hs"
        by (auto simp: happy_hours_query_def dest: in_set_takeD)
      then have "discount_percentage h \<le> 100"
        using assms(2) windows by blast
      then show ?thesis
        using Some windows base validDuration_pos [of d]
          apply_happy_hour_nonneg [of "price g * validDuration d" "validDuration d" h "price g"]
        by (simp add: calculate_cost_def Let_def)
    qed
  qed
qed

text \<open>
  C5, as the code has it. For every input the function returns a value (no rejected
  store call escapes it): the bare number 0 when it is called without a device id; the
  zero result when the device or group lookup fails or the group has no price; the
  undiscounted base cost when only the happy-hour query fails. When no group price is
  negative and no window discounts more than 100 percent, the base cost and the final
  cost it returns are not negative.
\<close>

theorem resolver_total_zero_on_failure:
  "(\<exists>c. fst (fetchDeviceGroupAndCalculateCost rm ck deviceId d s) = Inr c) \<and>
   fst (fetchDeviceGroupAndCalculateCost rm ck [] d s) = Inr BareZero \<and>
   (deviceId \<noteq> [] \<and> lookup_failure rm deviceId \<longrightarrow>
      fst (fetchDeviceGroupAndCalculateCost rm ck deviceId d s) = Inr (CostDetails zero_cost)) \<and>
   (deviceId \<noteq> [] \<and> devices rm deviceId = Some dev \<and> dev_group dev \<noteq> [] \<and>
    groups rm (dev_group dev) = Some g \<and> price g \<noteq> 0 \<and> happy_hours rm = None \<longrightarrow>
      fst (fetchDeviceGroupAndCalculateCost rm ck deviceId d s) =
        Inr (CostDetails \<lparr>baseCost = price g * validDuration d,
                            finalCost = price g * validDuration d,
                            discountRate = 0, discountAmount = 0,
                            happyHourApplied = False\<rparr>)) \<and>
   (sane_prices rm \<longrightarrow>
      (\<forall>c. fst (fetchDeviceGroupAndCalculateCost rm ck deviceId d s) = Inr c \<longrightarrow>
           0 \<le> baseCost_or0 c \<and> 0 \<le> finalCost_or0 c))"
proof (intro conjI impI allI)
  show "\<exists>c. fst (fetchDeviceGroupAndCalculateCost rm ck deviceId d s) = Inr c"
    by (simp add: fetch_result_cases split: option.splits)
next
  show "fst (fetchDeviceGroupAndCalculateCost rm ck [] d s) = Inr BareZero"
    by (simp add: fetch_result_cases)
next
  assume "deviceId \<noteq> [] \<and> lookup_failure rm deviceId"
  then show "fst (fetchDeviceGroupAndCalculateCost rm ck deviceId d s)
               = Inr (CostDetails zero_cost)"
    by (auto simp: fetch_result_cases lookup_failure_def split: option.splits)
next
  assume "deviceId \<noteq> [] \<and> devices rm deviceId = Some dev \<and> dev_group dev \<noteq> [] \<and>
    groups rm (dev_group dev) = Some g \<and> price g \<noteq> 0 \<and> happy_hours rm = None"
  then show "fst (fetchDeviceGroupAndCalculateCost rm ck deviceId d s) =
        Inr (CostDetails \<lparr>baseCost = price g * validDuration d,
                            finalCost = price g * validDuration d,
                            discountRate = 0, discountAmount = 0,
                            happyHourApplied = False\<rparr>)"
    by (simp add: fetch_result_cases calculate_cost_def Let_def)
next
  fix c
  assume sane: "sane_prices rm"
    and res: "fst (fetchDeviceGroupAndCalculateCost rm ck deviceId d s) = Inr c"
  from sane have windows:
      "\<forall>hs. happy_hours rm = Some hs \<longrightarrow> (\<forall>h \<in> set hs. discount_percentage h \<le> 100)"
    and prices: "\<And>i g. groups rm i = Some g \<Longrightarrow> 0 \<le> price g"
    by (auto simp: sane_prices_def)
  show "0 \<le> baseCost_or0 c"
    using res prices calculate_cost_nonneg [OF _ windows]
    by (auto simp: fetch_result_cases baseCost_or0_def zero_cost_def
        split: option.splits if_splits)
  show "0 \<le> finalCost_or0 c"
    using res prices calculate_cost_nonneg [OF _ windows]
    by (auto simp: fetch_result_cases finalCost_or0_def zero_cost_def
        split: option.splits if_splits)
qed

text \<open>
  C5 at three inputs: a store without the group, where the lookup fails and the result
  is the zero result; the priced store with a 20 percent window, where the costs are 200
  and 160; and the priced store whose happy-hour query is rejected, where two hours cost
  the undiscounted 200.
\<close>

theorem resolver_total_zero_on_failure_witness:
  "lookup_failure ex_remote_no_group ''pc1'' \<and> sane_prices ex_remote_no_group \<and>
   fst (fetchDeviceGroupAndCalculateCost ex_remote_no_group ex_clock ''pc1'' (Num 2) ex_state)
     = Inr (CostDetails zero_cost) \<and>
   sane_prices (ex_remote [ex_window 20 0]) \<and>
   (\<exists>c. fst (fetchDeviceGroupAndCalculateCost (ex_remote [ex_window 20 0]) ex_clock ''pc1''
              (Num 2) ex_state) = Inr c \<and> 0 \<le> baseCost_or0 c \<and> 0 \<le> finalCost_or0 c) \<and>
   fst (fetchDeviceGroupAndCalculateCost ((ex_remote [])\<lparr>happy_hours := None\<rparr>) ex_clock ''pc1''
          (Num 2) ex_state)
     = Inr (CostDetails \<lparr>baseCost = 200, finalCost = 200, discountRate = 0,
                          discountAmount = 0, happyHourApplied = False\<rparr>)"
  using resolver_total_zero_on_failure [of ex_remote_no_group ex_clock "''pc1''" "Num 2" ex_state]
    resolver_total_zero_on_failure [of "ex_remote [ex_window 20 0]" ex_clock "''pc1''" "Num 2"
      ex_state]
    resolver_total_zero_on_failure [of "(ex_remote [])\<lparr>happy_hours := None\<rparr>" ex_clock
      "''pc1''" "Num 2" ex_state ex_device ex_group]
  by (auto simp: lookup_failure_def sane_prices_def ex_remote_no_group_def ex_remote_def
      ex_device_def ex_group_def ex_window_def validDuration_def split: if_splits)

text \<open>
  C5 as stated, for any set of discount windows, fails for a window of 150 percent: the
  final cost returned for one hour at 100 per hour is -50.
\<close>

theorem resolver_negative_cost_counterexample:
  "fst (fetchDeviceGroupAndCalculateCost (ex_remote [ex_window 150 0]) ex_clock ''pc1''
         (Num 1) ex_state)
     = Inr (CostDetails \<lparr>baseCost = 100, finalCost = - 50, discountRate = 150,
                          discountAmount = 150, happyHourApplied = True\<rparr>)
   \<and> (- 50::real) < 0"
  by (simp add: fetch_result_cases pricing_defs ex_pricing_defs)

section \<open>Effects of the handlers\<close>

lemma session_writes_simps [simp]:
  "session_writes [] = []"
  "session_writes (f # fx) =
     (case f of SessionUpdate i p \<Rightarrow> [(i, p)] | _ \<Rightarrow> []) @ session_writes fx"
  "session_writes (fx @ gx) = session_writes fx @ session_writes gx"
  by (simp_all add: session_writes_def)

lemma log_writes_simps [simp]:
  "log_writes [] = []"
  "log_writes (f # fx) =
     (case f of SessionLogCreate i t a \<Rightarrow> [(i, t, a)] | _ \<Rightarrow> []) @ log_writes fx"
  "log_writes (fx @ gx) = log_writes fx @ log_writes gx"
  by (simp_all add: log_writes_def)

lemma device_writes_simps [simp]:
  "device_writes [] = []"
  "device_writes (f # fx) =
     (case f of DeviceUpdate i st tok rec \<Rightarrow> [(i, st, tok, rec)] | _ \<Rightarrow> []) @ device_writes fx"
  "device_writes (fx @ gx) = device_writes fx @ device_writes gx"
  by (simp_all add: device_writes_def)

lemma notifications_simps [simp]:
  "notifications [] = []"
  "notifications (f # fx) =
     (case f of ShowNotification n sys \<Rightarrow> [n] | _ \<Rightarrow> []) @ notifications fx"
  "notifications (fx @ gx) = notifications fx @ notifications gx"
  by (simp_all add: notifications_def)

lemma timers_simps [simp]:
  "timers [] = []"
  "timers (f # fx) = (case f of SetTimeout ms cb \<Rightarrow> [(ms, cb)] | _ \<Rightarrow> []) @ timers fx"
  "timers (fx @ gx) = timers fx @ timers gx"
  by (simp_all add: timers_def)

text \<open>The pricing call changes only the displayed device, group and cost.\<close>

lemma fetch_keeps_tracking:
  "isSessionActive (snd (fetchDeviceGroupAndCalculateCost rm ck deviceId d s)) = isSessionActive s"
  "sessionId (snd (fetchDeviceGroupAndCalculateCost rm ck deviceId d s)) = sessionId s"
  "notificationShown (snd (fetchDeviceGroupAndCalculateCost rm ck deviceId d s))
     = notificationShown s"
  "outTime (snd (fetchDeviceGroupAndCalculateCost rm ck deviceId d s)) = outTime s"
  by (simp_all add: fetchDeviceGroupAndCalculateCost_def Let_def split: option.splits)

lemma fetch_result_state_free:
  "fst (fetchDeviceGroupAndCalculateCost rm ck deviceId d s) =
   fst (fetchDeviceGroupAndCalculateCost rm ck deviceId d s')"
  by (simp add: fetchDeviceGroupAndCalculateCost_def Let_def split: option.splits)

section \<open>The tick at and after expiry\<close>

text \<open>
  For an end that has passed, the test the code makes on the three calendar fields is
  true when the end lies on an earlier day and false when it lies on the same day.
\<close>

lemma earlier_day_isYesterday: "earlier_day e n \<Longrightarrow> isYesterday n e"
  by (auto simp: earlier_day_def isYesterday_def)

lemma same_day_not_isYesterday: "same_day e n \<Longrightarrow> \<not> isYesterday n e"
  by (simp add: same_day_def isYesterday_def)

text \<open>
  When the current day is not before the day of the end, as for every end that has
  passed, the test is true exactly when the end lies on an earlier day.
\<close>

lemma isYesterday_iff_earlier_day:
  "\<not> earlier_day n e \<Longrightarrow> isYesterday n e = earlier_day e n"
  by (auto simp: earlier_day_def isYesterday_def)

text \<open>A component that does not track an active session issues nothing on a tick.\<close>

lemma untracked_tick:
  assumes "\<not> isSessionActive s"
  shows "snd (updateRemainingTime env s) = []"
    and "\<not> isSessionActive (fst (updateRemainingTime env s))"
  using assms
  by (simp_all add: updateRemainingTime_def expired_tick_def running_tick_def Let_def
      split: option.splits js_date.splits)

text \<open>
  The close block, for a component with and without a loaded device record. With one,
  the cost fields are those the pricing code returns for the span from \<open>inTime\<close> to
  \<open>outTime\<close>, and the device released is the loaded one. Without one, they are the
  displayed cost and no discount, and the device released is the one named in local
  persistence, if any. The device is released only after the log entry was accepted.
\<close>

lemma close_session_loaded:
  assumes dev: "deviceInfo s = Some dev" "dev_id dev \<noteq> []"
    and res: "fst (fetchDeviceGroupAndCalculateCost (store env) (wall_clock env) (dev_id dev)
                (hours_between (new_Date (outTime s)) (new_Date (inTime s))) s) = Inr c"
  shows "session_writes (snd (close_session env s s1)) =
           [(sessionId s,
             closed_patch (finalCost_or0 c) (discountAmount_or0 c) (discountRate_or0 c))]"
    and "log_writes (snd (close_session env s s1)) = [(sessionId s, ''Closed'', finalCost_or0 c)]"
    and "device_writes (snd (close_session env s s1)) =
           (if session_logs_create_ok env then [(dev_id dev, ''Available'', [], [])] else [])"
proof -
  let ?f = "fetchDeviceGroupAndCalculateCost (store env) (wall_clock env) (dev_id dev)
              (hours_between (new_Date (outTime s)) (new_Date (inTime s)))"
  have "fst (?f s1) = Inr c"
    using res fetch_result_state_free [of "store env" "wall_clock env" "dev_id dev" _ s1 s]
    by simp
  then obtain s' where f: "?f s1 = (Inr c, s')"
    by (cases "?f s1") simp
  show "session_writes (snd (close_session env s s1)) =
           [(sessionId s,
             closed_patch (finalCost_or0 c) (discountAmount_or0 c) (discountRate_or0 c))]"
    using dev f by (simp add: close_session_def Let_def)
  show "log_writes (snd (close_session env s s1)) = [(sessionId s, ''Closed'', finalCost_or0 c)]"
    using dev f by (simp add: close_session_def Let_def)
  show "device_writes (snd (close_session env s s1)) =
           (if session_logs_create_ok env then [(dev_id dev, ''Available'', [], [])] else [])"
    using dev f by (simp add: close_session_def Let_def)
qed

lemma close_session_not_loaded:
  assumes "\<not> device_loaded s"
  shows "session_writes (snd (close_session env s s1)) =
           [(sessionId s, closed_patch (sessionCost s) 0 0)]"
    and "log_writes (snd (close_session env s s1)) = [(sessionId s, ''Closed'', sessionCost s)]"
    and "device_writes (snd (close_session env s s1)) =
           (if session_logs_create_ok env \<and> deviceId_from_localStorage (localStorage env) \<noteq> []
            then [(deviceId_from_localStorage (localStorage env), ''Available'', [], [])]
            else [])"
  using assms
  by (simp_all add: close_session_def device_loaded_def Let_def split: option.splits)

text \<open>
  A tick on a tracked session whose end has passed on an earlier day issues what the
  close block issues, after the notification and the logout timer if the flag was clear.
\<close>

lemma carried_over_tick:
  assumes "outTime s = Some (Date e)" and "e \<le> now_ms env"
    and "earlier_day (calendar env e) (calendar env (now_ms env))"
    and "isSessionActive s" and "sessionId s \<noteq> []"
  shows "reaches_store env s"
    and "snd (updateRemainingTime env s) =
           (if notificationShown s then []
            else [ShowNotification SessionEnded True,
                  SetTimeout 5000 (logout_callback (has_Neutralino env))])
           @ snd (close_session env s (before_store s))"
    and "fst (updateRemainingTime env s) = fst (close_session env s (before_store s))"
proof -
  have y: "isYesterday (calendar env (now_ms env)) (calendar env e)"
    using assms(3) by (rule earlier_day_isYesterday)
  show "reaches_store env s"
    using assms y by (simp add: reaches_store_def)
  show "snd (updateRemainingTime env s) =
           (if notificationShown s then []
            else [ShowNotification SessionEnded True,
                  SetTimeout 5000 (logout_callback (has_Neutralino env))])
           @ snd (close_session env s (before_store s))"
    using assms y
    by (simp add: updateRemainingTime_def expired_tick_def before_store_def Let_def)
  show "fst (updateRemainingTime env s) = fst (close_session env s (before_store s))"
    using assms y
    by (simp add: updateRemainingTime_def expired_tick_def before_store_def Let_def)
qed




text \<open>
  Runs that overlap. While a close waits for the store the component still tracks the
  session, so every further invocation that starts in that time closes it again: as many
  Closed updates and Closed log entries are issued as there are invocations. Only an
  invocation that starts after a close has come back finds the session untracked and
  writes nothing.
\<close>

lemma before_store_keeps [simp]:
  "outTime (before_store s) = outTime s"
  "isSessionActive (before_store s) = isSessionActive s"
  "sessionId (before_store s) = sessionId s"
  by (simp_all add: before_store_def)

lemma fetch_returns:
  "\<exists>c. fst (fetchDeviceGroupAndCalculateCost rm ck deviceId d s) = Inr c"
  by (simp add: fetch_result_cases split: option.splits)

lemma carried_over_tick_closes_once:
  assumes "outTime s = Some (Date e)" and "e \<le> now_ms env"
    and "earlier_day (calendar env e) (calendar env (now_ms env))"
    and "isSessionActive s" and "sessionId s \<noteq> []"
  shows "length (session_writes (snd (updateRemainingTime env s))) = 1"
    and "length (log_writes (snd (updateRemainingTime env s))) = 1"
proof -
  note tick = carried_over_tick(2) [OF assms]
  have "length (session_writes (snd (close_session env s (before_store s)))) = 1 \<and>
        length (log_writes (snd (close_session env s (before_store s)))) = 1"
  proof (cases "device_loaded s")
    case True
    then obtain dev where d: "deviceInfo s = Some dev" "dev_id dev \<noteq> []"
      by (auto simp: device_loaded_def split: option.splits)
    obtain c where "fst (fetchDeviceGroupAndCalculateCost (store env) (wall_clock env)
        (dev_id dev) (hours_between (new_Date (outTime s)) (new_Date (inTime s))) s) = Inr c"
      using fetch_returns by blast
    then show ?thesis
      using close_session_loaded(1,2) [OF d, of env c "before_store s"] by simp
  next
    case False
    then show ?thesis
      using close_session_not_loaded(1,2) [of s env "before_store s"] by simp
  qed
  then show "length (session_writes (snd (updateRemainingTime env s))) = 1"
    and "length (log_writes (snd (updateRemainingTime env s))) = 1"
    by (simp_all add: tick)
qed

lemma overlapping_closes:
  assumes "outTime s = Some (Date e)" and "isSessionActive s" and "sessionId s \<noteq> []"
    and "\<forall>env \<in> set envs.
           e \<le> now_ms env \<and> earlier_day (calendar env e) (calendar env (now_ms env))"
  shows "length (session_writes (overlapping_ticks envs s)) = length envs \<and>
         length (log_writes (overlapping_ticks envs s)) = length envs"
  using assms
proof (induction envs arbitrary: s)
  case Nil
  then show ?case by simp
next
  case (Cons env envs)
  have here: "e \<le> now_ms env"
    "earlier_day (calendar env e) (calendar env (now_ms env))"
    using Cons.prems(4) by simp_all
  note r = carried_over_tick(1) [OF Cons.prems(1) here Cons.prems(2,3)]
  note one = carried_over_tick_closes_once [OF Cons.prems(1) here Cons.prems(2,3)]
  have rest: "\<forall>env \<in> set envs.
           e \<le> now_ms env \<and> earlier_day (calendar env e) (calendar env (now_ms env))"
    using Cons.prems(4) by simp
  have "length (session_writes (overlapping_ticks envs (before_store s))) = length envs \<and>
        length (log_writes (overlapping_ticks envs (before_store s))) = length envs"
    using Cons.IH [of "before_store s"] Cons.prems(1-3) rest by simp
  then show ?case
    using r one by simp
qed

text \<open>
  On the session \<open>s1\<close>: the tick of the interval and the tick that the change of the flag
  sets off, both started before the store has answered, close the session twice.
\<close>

lemma two_overlapping_closes:
  "session_writes (overlapping_ticks [ex_env_discount 90000000, ex_env_discount 90000000]
       ex_state) =
     [(''s1'',
       \<lparr>p_status = Some Closed, p_out_time = None, p_duration = None,
        p_amount_paid = Some 80, p_discount_amount = Some 20, p_discount_rate = Some 20,
        p_session_total = Some 80, p_total_amount = Some 80\<rparr>),
      (''s1'',
       \<lparr>p_status = Some Closed, p_out_time = None, p_duration = None,
        p_amount_paid = Some 80, p_discount_amount = Some 20, p_discount_rate = Some 20,
        p_session_total = Some 80, p_total_amount = Some 80\<rparr>)]"
proof -
  have res: "fst (fetchDeviceGroupAndCalculateCost (ex_remote [ex_window 20 0]) ex_clock ''pc1''
          (hours_between (Date 3600000) (Date 0)) st)
        = Inr (CostDetails \<lparr>baseCost = 100, finalCost = 80, discountRate = 20,
                              discountAmount = 20, happyHourApplied = True\<rparr>)" for st
    by (simp add: fetch_result_cases pricing_defs ex_pricing_defs hours_between_def)
  have e: "earlier_day (ex_calendar 3600000) (ex_calendar 90000000)"
    by (simp add: ex_calendar_def earlier_day_def)
  have one: "session_writes (snd (updateRemainingTime (ex_env_discount 90000000) s)) =
     [(''s1'', closed_patch 80 20 20)] \<and> reaches_store (ex_env_discount 90000000) s"
    if "outTime s = Some (Date 3600000)" "inTime s = Some (Date 0)" "isSessionActive s"
      "sessionId s = ''s1''" "deviceInfo s = Some ex_device" for s
  proof -
    have t: "outTime s = Some (Date 3600000)" "3600000 \<le> now_ms (ex_env_discount 90000000)"
      "earlier_day (calendar (ex_env_discount 90000000) 3600000)
         (calendar (ex_env_discount 90000000) (now_ms (ex_env_discount 90000000)))"
      "isSessionActive s" "sessionId s \<noteq> []"
      using that e by (simp_all add: ex_env_discount_def)
    have r: "fst (fetchDeviceGroupAndCalculateCost (store (ex_env_discount 90000000))
          (wall_clock (ex_env_discount 90000000)) (dev_id ex_device)
          (hours_between (new_Date (outTime s)) (new_Date (inTime s))) s)
        = Inr (CostDetails \<lparr>baseCost = 100, finalCost = 80, discountRate = 20,
                              discountAmount = 20, happyHourApplied = True\<rparr>)"
      using that res [of s] by (simp add: ex_env_discount_def ex_device_def new_Date_def)
    have d: "dev_id ex_device \<noteq> []" by (simp add: ex_device_def)
    show ?thesis
      using carried_over_tick(1,2) [OF t]
        close_session_loaded(1) [OF that(5) d r, of "before_store s"] that(4)
      by (simp add: finalCost_or0_def discountAmount_or0_def discountRate_or0_def)
  qed
  have s0: "outTime ex_state = Some (Date 3600000)" "inTime ex_state = Some (Date 0)"
    "isSessionActive ex_state" "sessionId ex_state = ''s1''"
    "deviceInfo ex_state = Some ex_device"
    by (simp_all add: ex_state_def)
  have s1: "outTime (before_store ex_state) = Some (Date 3600000)"
    "inTime (before_store ex_state) = Some (Date 0)"
    "isSessionActive (before_store ex_state)" "sessionId (before_store ex_state) = ''s1''"
    "deviceInfo (before_store ex_state) = Some ex_device"
    by (simp_all add: ex_state_def before_store_def)
  show ?thesis
    using one [OF s0] one [OF s1]
    by (simp add: closed_patch_def no_patch_def)
qed

lemma close_come_back_then_quiet:
  assumes "outTime s = Some (Date e)" and "e \<le> now_ms env"
    and "earlier_day (calendar env e) (calendar env (now_ms env))"
    and "isSessionActive s" and "sessionId s \<noteq> []"
    and "session_logs_create_ok env"
  shows "snd (updateRemainingTime env' (fst (updateRemainingTime env s))) = []"
proof -
  have "\<not> isSessionActive (fst (close_session env s (before_store s)))"
    using assms(6) fetch_keeps_tracking(1)
    by (simp add: close_session_def Let_def split: prod.splits sum.splits)
  then show ?thesis
    using carried_over_tick(3) [OF assms(1-5)] untracked_tick(1) by simp
qed

text \<open>
  A tick after an end on the same calendar day writes nothing to the store. What it
  shows depends on the flag \<open>notificationShown\<close>, which the five-minute warning sets as
  well: with the flag clear it shows the one notification and starts the five-second
  logout timer; with the flag set it does nothing. Either way the flag is set afterwards.
\<close>

lemma same_day_expiry_tick:
  assumes "outTime s = Some (Date e)" and "e \<le> now_ms env"
    and "same_day (calendar env e) (calendar env (now_ms env))"
    and "isSessionActive s" and "sessionId s \<noteq> []"
  shows "session_writes (snd (updateRemainingTime env s)) = []"
    and "log_writes (snd (updateRemainingTime env s)) = []"
    and "device_writes (snd (updateRemainingTime env s)) = []"
    and "\<not> notificationShown s \<Longrightarrow>
           snd (updateRemainingTime env s) =
             [ShowNotification SessionTimeEnded True,
              SetTimeout 5000 (logout_callback (has_Neutralino env))]"
    and "notificationShown s \<Longrightarrow> snd (updateRemainingTime env s) = []"
    and "notificationShown (fst (updateRemainingTime env s))"
  using assms same_day_not_isYesterday [of "calendar env e" "calendar env (now_ms env)"]
  by (simp_all add: updateRemainingTime_def expired_tick_def Let_def)

text \<open>
  A tick with at least one and less than six minutes left shows the warning and sets
  the flag.
\<close>

lemma warning_tick:
  assumes "outTime s = Some (Date e)" and "isSessionActive s" and "sessionId s \<noteq> []"
    and "\<not> notificationShown s"
    and "60000 \<le> e - now_ms env" and "e - now_ms env < 360000"
  shows "snd (updateRemainingTime env s) =
           [ShowNotification (EndingSoon ((e - now_ms env) div 60000)) True]"
    and "notificationShown (fst (updateRemainingTime env s))"
    and "isSessionActive (fst (updateRemainingTime env s))"
    and "sessionId (fst (updateRemainingTime env s)) = sessionId s"
    and "outTime (fst (updateRemainingTime env s)) = outTime s"
proof -
  let ?d = "e - now_ms env"
  have h: "?d div 3600000 = 0" using assms(5,6) by (simp add: div_pos_pos_trivial)
  have m1: "0 < ?d div 60000" using assms(5) by (simp add: pos_imp_zdiv_pos_iff)
  have "?d div 60000 \<le> 359999 div 60000"
    using assms(6) by (intro zdiv_mono1) simp_all
  then have m5: "?d div 60000 \<le> 5" by simp
  have pos: "\<not> ?d \<le> 0" using assms(5) by simp
  show "snd (updateRemainingTime env s) = [ShowNotification (EndingSoon (?d div 60000)) True]"
    using assms(1-4) pos h m1 m5 by (simp add: updateRemainingTime_def running_tick_def Let_def)
  show "notificationShown (fst (updateRemainingTime env s))"
    using assms(1-4) pos h m1 m5 by (simp add: updateRemainingTime_def running_tick_def Let_def)
  show "isSessionActive (fst (updateRemainingTime env s))"
    using assms(1-4) pos h m1 m5 by (simp add: updateRemainingTime_def running_tick_def Let_def)
  show "sessionId (fst (updateRemainingTime env s)) = sessionId s"
    using assms(1-4) pos h m1 m5 by (simp add: updateRemainingTime_def running_tick_def Let_def)
  show "outTime (fst (updateRemainingTime env s)) = outTime s"
    using assms(1-4) pos h m1 m5 by (simp add: updateRemainingTime_def running_tick_def Let_def)
qed

text \<open>
  So a tracked session that receives the warning and then reaches its end on the same
  day expires without any further effect of the tick. Neither tick makes a store call,
  so the first has finished when the second starts.
\<close>

lemma warned_session_expires_silently:
  assumes "outTime s = Some (Date e)" and "isSessionActive s" and "sessionId s \<noteq> []"
    and "\<not> notificationShown s"
    and "60000 \<le> e - now_ms env1" and "e - now_ms env1 < 360000"
    and "e \<le> now_ms env2" and "same_day (calendar env2 e) (calendar env2 (now_ms env2))"
  shows "snd (updateRemainingTime env1 s) =
           [ShowNotification (EndingSoon ((e - now_ms env1) div 60000)) True]"
    and "snd (updateRemainingTime env2 (fst (updateRemainingTime env1 s))) = []"
proof -
  note w = warning_tick [OF assms(1-6)]
  show "snd (updateRemainingTime env1 s) =
           [ShowNotification (EndingSoon ((e - now_ms env1) div 60000)) True]"
    by (rule w(1))
  have "outTime (fst (updateRemainingTime env1 s)) = Some (Date e)"
    using w(5) assms(1) by simp
  then show "snd (updateRemainingTime env2 (fst (updateRemainingTime env1 s))) = []"
    using w(2,3,4) assms(3,7,8)
      same_day_not_isYesterday [of "calendar env2 e" "calendar env2 (now_ms env2)"]
    by (simp add: updateRemainingTime_def expired_tick_def Let_def)
qed

text \<open>
  C2 at a session that runs down in the ordinary way. The session \<open>s1\<close> ends at 01:00.
  The tick three minutes before the end shows the warning and sets the flag; the tick
  one minute after the end, on the same day, then issues nothing: no notification that
  the session has ended, no logout timer, no kiosk request. The only effect of the two
  ticks is the warning.
\<close>

theorem same_day_expiry_after_warning:
  "snd (updateRemainingTime (ex_env 3420000) ex_state) = [ShowNotification (EndingSoon 3) True]
   \<and> snd (updateRemainingTime (ex_env 3660000)
            (fst (updateRemainingTime (ex_env 3420000) ex_state))) = []
   \<and> same_day (ex_calendar 3600000) (ex_calendar 3660000)"
  by (simp add: updateRemainingTime_def expired_tick_def running_tick_def Let_def
      ex_env_def ex_state_def ex_calendar_def isYesterday_def same_day_def)

section \<open>Extension\<close>

text \<open>
  The span and the new end that \<open>extendSession\<close> computes from the tracked start \<open>T\<close> and
  scheduled end \<open>U\<close>.
\<close>

lemma extend_span:
  assumes "inTime s = Some (Date T)" and "outTime s = Some (Date U)"
  shows "add_one_hour (new_Date (outTime s)) = Date (U + 3600000)"
    and "hours_between (add_one_hour (new_Date (outTime s))) (new_Date (inTime s)) =
           Num (real_of_int (U + 3600000 - T) / 3600000)"
    and "times60 (hours_between (add_one_hour (new_Date (outTime s))) (new_Date (inTime s))) =
           Num (real_of_int (U + 3600000 - T) / 60000)"
  using assms
  by (simp_all add: add_one_hour_def new_Date_def hours_between_def times60_def)

text \<open>
  C6, as the code has it. For a tracked session with start \<open>T\<close> and scheduled end \<open>U\<close>, one
  call of \<open>extendSession\<close> issues exactly two writes: an update of the session with
  \<open>out_time = U + 1 hour\<close>, status Extended and the duration in minutes of the whole span
  from \<open>T\<close> to the new end; and a session log entry of type Extended with amount 0. When
  the component holds a device record with an id, the cost fields of the update are
  those the pricing code returns for that whole span in hours (the cost shown before
  does not enter). When it holds none, the pricing code is not called: the cost
  written is the cost shown before, unchanged, with discount amount and rate 0.
\<close>

theorem extend_by_one_hour:
  assumes "sessionId s \<noteq> []" and "inTime s = Some (Date T)" and "outTime s = Some (Date U)"
  shows
    "(deviceInfo s = Some dev \<and> dev_id dev \<noteq> [] \<and>
      fst (fetchDeviceGroupAndCalculateCost (store env) (wall_clock env) (dev_id dev)
             (Num (real_of_int (U + 3600000 - T) / 3600000)) s) = Inr c \<longrightarrow>
        snd (extendSession env s) =
           [SessionUpdate (sessionId s)
              \<lparr>p_status = Some Extended,
               p_out_time = Some (Date (U + 3600000)),
               p_duration = Some (Num (real_of_int (U + 3600000 - T) / 60000)),
               p_amount_paid = None,
               p_discount_amount = Some (discountAmount_or0 c),
               p_discount_rate = Some (discountRate_or0 c),
               p_session_total = Some (finalCost_or0 c),
               p_total_amount = Some (finalCost_or0 c)\<rparr>,
            SessionLogCreate (sessionId s) ''Extended'' 0]) \<and>
     (\<not> device_loaded s \<longrightarrow>
        snd (extendSession env s) =
           [SessionUpdate (sessionId s)
              \<lparr>p_status = Some Extended,
               p_out_time = Some (Date (U + 3600000)),
               p_duration = Some (Num (real_of_int (U + 3600000 - T) / 60000)),
               p_amount_paid = None,
               p_discount_amount = Some 0,
               p_discount_rate = Some 0,
               p_session_total = Some (sessionCost s),
               p_total_amount = Some (sessionCost s)\<rparr>,
            SessionLogCreate (sessionId s) ''Extended'' 0])"
proof (intro conjI impI)
  define d where "d = Num (real_of_int (U + 3600000 - T) / 3600000)"
  note sp = extend_span [OF assms(2,3)]
  have h: "hours_between (Date (U + 3600000)) (new_Date (inTime s)) = d"
    using sp(1,2) by (simp add: d_def)
  have m: "times60 d = Num (real_of_int (U + 3600000 - T) / 60000)"
    using sp(1,2,3) by (simp add: d_def)
  {
    assume a: "deviceInfo s = Some dev \<and> dev_id dev \<noteq> [] \<and>
      fst (fetchDeviceGroupAndCalculateCost (store env) (wall_clock env) (dev_id dev)
             (Num (real_of_int (U + 3600000 - T) / 3600000)) s) = Inr c"
    then obtain s' where f:
      "fetchDeviceGroupAndCalculateCost (store env) (wall_clock env) (dev_id dev) d s
         = (Inr c, s')"
      unfolding d_def [symmetric]
      by (cases "fetchDeviceGroupAndCalculateCost (store env) (wall_clock env) (dev_id dev) d s")
        simp
    from a have dv: "deviceInfo s = Some dev" "dev_id dev \<noteq> []" by simp_all
    show "snd (extendSession env s) =
           [SessionUpdate (sessionId s)
              \<lparr>p_status = Some Extended,
               p_out_time = Some (Date (U + 3600000)),
               p_duration = Some (Num (real_of_int (U + 3600000 - T) / 60000)),
               p_amount_paid = None,
               p_discount_amount = Some (discountAmount_or0 c),
               p_discount_rate = Some (discountRate_or0 c),
               p_session_total = Some (finalCost_or0 c),
               p_total_amount = Some (finalCost_or0 c)\<rparr>,
            SessionLogCreate (sessionId s) ''Extended'' 0]"
      using assms(1) dv
      by (simp add: extendSession_def Let_def sp(1) h f m extended_patch_def no_patch_def)
  }
  {
    assume n: "\<not> device_loaded s"
    then have k: "(case deviceInfo s of None \<Rightarrow> [] | Some d \<Rightarrow> dev_id d) = []"
      by (simp add: device_loaded_def split: option.splits)
    show "snd (extendSession env s) =
           [SessionUpdate (sessionId s)
              \<lparr>p_status = Some Extended,
               p_out_time = Some (Date (U + 3600000)),
               p_duration = Some (Num (real_of_int (U + 3600000 - T) / 60000)),
               p_amount_paid = None,
               p_discount_amount = Some 0,
               p_discount_rate = Some 0,
               p_session_total = Some (sessionCost s),
               p_total_amount = Some (sessionCost s)\<rparr>,
            SessionLogCreate (sessionId s) ''Extended'' 0]"
      using assms(1)
      by (simp add: extendSession_def Let_def sp(1) h k m extended_patch_def no_patch_def)
  }
qed

text \<open>
  C6 on the session \<open>s1\<close> from 00:00 to 01:00 at 100 per hour, whose displayed cost is
  100. With the device record loaded the new end is 02:00, the duration 120 minutes,
  and the cost 200, the price of two hours, not the old cost plus anything. Without
  the device record the end and the duration are the same and the cost written is
  the displayed 100.
\<close>

theorem extend_by_one_hour_witness:
  "snd (extendSession (ex_env 1800000) ex_state) =
     [SessionUpdate ''s1''
        \<lparr>p_status = Some Extended, p_out_time = Some (Date 7200000),
         p_duration = Some (Num 120), p_amount_paid = None,
         p_discount_amount = Some 0, p_discount_rate = Some 0,
         p_session_total = Some 200, p_total_amount = Some 200\<rparr>,
      SessionLogCreate ''s1'' ''Extended'' 0] \<and>
   snd (extendSession (ex_env 1800000) (ex_state\<lparr>deviceInfo := None\<rparr>)) =
     [SessionUpdate ''s1''
        \<lparr>p_status = Some Extended, p_out_time = Some (Date 7200000),
         p_duration = Some (Num 120), p_amount_paid = None,
         p_discount_amount = Some 0, p_discount_rate = Some 0,
         p_session_total = Some 100, p_total_amount = Some 100\<rparr>,
      SessionLogCreate ''s1'' ''Extended'' 0]"
proof -
  have res: "fst (fetchDeviceGroupAndCalculateCost (store (ex_env 1800000))
          (wall_clock (ex_env 1800000)) (dev_id ex_device)
          (Num (real_of_int (3600000 + 3600000 - 0) / 3600000)) ex_state)
        = Inr (CostDetails \<lparr>baseCost = 200, finalCost = 200, discountRate = 0,
                              discountAmount = 0, happyHourApplied = False\<rparr>)"
    by (simp add: fetch_result_cases calculate_cost_def validDuration_def Let_def
        ex_env_def ex_remote_def ex_device_def ex_group_def ex_clock_def
        happy_hours_query_def)
  show ?thesis
    using extend_by_one_hour [of ex_state 0 3600000 ex_device "ex_env 1800000"
        "CostDetails \<lparr>baseCost = 200, finalCost = 200, discountRate = 0,
                       discountAmount = 0, happyHourApplied = False\<rparr>"]
      extend_by_one_hour [of "ex_state\<lparr>deviceInfo := None\<rparr>" 0 3600000 _ "ex_env 1800000"]
      res
    by (simp add: ex_state_def ex_device_def finalCost_or0_def discountAmount_or0_def
        discountRate_or0_def device_loaded_def)
qed

text \<open>
  C6 as stated, with the cost recomputed over the new total span for every session,
  fails for a component without a loaded device record: the session \<open>s1\<close> is extended
  to a span of two hours and the cost written is the displayed 100, the price of the
  one hour before the extension, where the pricing code gives 200 for two hours.
\<close>

theorem extend_keeps_old_cost_counterexample:
  "snd (extendSession (ex_env 1800000) (ex_state\<lparr>deviceInfo := None\<rparr>)) =
     [SessionUpdate ''s1''
        \<lparr>p_status = Some Extended, p_out_time = Some (Date 7200000),
         p_duration = Some (Num 120), p_amount_paid = None,
         p_discount_amount = Some 0, p_discount_rate = Some 0,
         p_session_total = Some 100, p_total_amount = Some 100\<rparr>,
      SessionLogCreate ''s1'' ''Extended'' 0]
   \<and> fst (fetchDeviceGroupAndCalculateCost (store (ex_env 1800000))
            (wall_clock (ex_env 1800000)) ''pc1'' (Num 2) (ex_state\<lparr>deviceInfo := None\<rparr>))
       = Inr (CostDetails \<lparr>baseCost = 200, finalCost = 200, discountRate = 0,
                            discountAmount = 0, happyHourApplied = False\<rparr>)"
  by (simp add: extendSession_def Let_def add_one_hour_def new_Date_def hours_between_def
      times60_def extended_patch_def no_patch_def ex_state_def ex_env_def
      fetch_result_cases calculate_cost_def validDuration_def ex_remote_def ex_device_def
      ex_group_def ex_clock_def happy_hours_query_def)

section \<open>Promotion to Active\<close>

lemma report_writes [simp]:
  "session_writes (report env a d) = []"
  "log_writes (report env a d) = []"
  "device_writes (report env a d) = []"
  by (simp_all add: report_def)

lemma report_store [simp]: "fold (store_update ok) (report env a d) coll = coll"
  by (simp add: report_def store_update_def)

lemma client_logout_writes [simp]:
  "session_writes client_logout = []"
  "log_writes client_logout = []"
  "device_writes client_logout = []"
  by (simp_all add: client_logout_def)

lemma patches_differ [simp]:
  "active_patch \<noteq> closed_only_patch" "closed_only_patch \<noteq> active_patch"
  by (simp_all add: active_patch_def closed_only_patch_def no_patch_def)

lemma open_sessions_query_status:
  assumes "open_sessions_query dev coll = x # rest"
  shows "sess_status x = Booked \<or> sess_status x = Active \<or> sess_status x = Occupied \<or>
         sess_status x = Extended"
proof -
  have "x \<in> set (open_sessions_query dev coll)" using assms by simp
  then show ?thesis
    by (auto simp: open_sessions_query_def dest!: in_set_takeD)
qed

text \<open>A check that finds an Active session with time left writes nothing.\<close>

lemma active_poll:
  assumes "open_sessions_query (deviceId_prop env) coll = x # rest"
    and "sess_status x = Active" and "sess_out_time x = Some (Date t)" and "ssm_now env < t"
  shows "session_writes (snd (snd (checkForActiveSessions env coll st))) = []"
    and "fold (store_update ok) (snd (snd (checkForActiveSessions env coll st))) coll = coll"
  using assms by (simp_all add: checkForActiveSessions_def Let_def)

lemma active_polls:
  assumes "open_sessions_query dev coll = x # rest"
    and "sess_status x = Active" and "sess_out_time x = Some (Date t)"
    and "\<forall>env \<in> set envs. deviceId_prop env = dev \<and> ssm_now env < t"
  shows "session_writes (snd (polls envs coll st)) = [] \<and> fst (fst (polls envs coll st)) = coll"
  using assms(4)
proof (induction envs arbitrary: st)
  case Nil
  then show ?case by simp
next
  case (Cons env envs)
  have q: "open_sessions_query (deviceId_prop env) coll = x # rest" and n: "ssm_now env < t"
    using Cons.prems assms(1) by auto
  note step = active_poll [OF q assms(2,3) n]
  have rest: "\<forall>env \<in> set envs. deviceId_prop env = dev \<and> ssm_now env < t"
    using Cons.prems by simp
  show ?case
    using Cons.IH [OF rest] by (simp add: Let_def step)
qed

lemma poll_active_write_only:
  assumes "(i, active_patch) \<in> set (session_writes (snd (snd (checkForActiveSessions env coll st))))"
  shows "\<exists>x rest. open_sessions_query (deviceId_prop env) coll = x # rest \<and> i = sess_id x \<and>
           (sess_status x = Booked \<or> sess_status x = Occupied \<or> sess_status x = Extended)"
proof (cases "open_sessions_query (deviceId_prop env) coll")
  case Nil
  then show ?thesis
    using assms by (simp add: checkForActiveSessions_def Let_def split: if_splits)
next
  case (Cons x rest)
  from assms Cons have "i = sess_id x \<and> sess_status x \<noteq> Active"
    by (auto simp: checkForActiveSessions_def Let_def
        split: if_splits option.splits js_date.splits)
  then show ?thesis using Cons open_sessions_query_status [OF Cons] by auto
qed

lemma existing_session_writes:
  "session_writes (snd (snd (checkExistingSession e allSessions s))) =
     (case allSessions of
        [] \<Rightarrow> []
      | x # rest \<Rightarrow>
          if deviceId_from_localStorage (localStorage e) \<noteq> [] \<and>
             (sess_status x = Booked \<or> sess_status x = Occupied)
          then [(sess_id x, active_patch)] else [])"
  by (cases allSessions) (auto simp: checkExistingSession_def Let_def)

text \<open>
  C7, as the code has it. While the newest open session of the device is Active and
  every check runs before its scheduled end, any number of polling checks in a row
  issue no session write; and \<open>checkExistingSession\<close> issues none for a found session
  that is Active. A write of status Active is issued by the polling check only for a
  found open session whose status is Booked, Occupied or Extended (any open status
  other than Active), and by \<open>checkExistingSession\<close> only for a found session whose
  status is Booked or Occupied.
\<close>

theorem promote_to_active:
  "(open_sessions_query dev coll = x # rest \<and> sess_status x = Active \<and>
    sess_out_time x = Some (Date t) \<and>
    (\<forall>env \<in> set envs. deviceId_prop env = dev \<and> ssm_now env < t)
      \<longrightarrow> session_writes (snd (polls envs coll st)) = []) \<and>
   (sess_status z = Active
      \<longrightarrow> session_writes (snd (snd (checkExistingSession e' (z # zs) s'))) = []) \<and>
   ((i, active_patch) \<in> set (session_writes (snd (snd (checkForActiveSessions env coll' st'))))
      \<longrightarrow> (\<exists>y ys. open_sessions_query (deviceId_prop env) coll' = y # ys \<and> i = sess_id y \<and>
             (sess_status y = Booked \<or> sess_status y = Occupied \<or> sess_status y = Extended))) \<and>
   ((j, active_patch) \<in> set (session_writes (snd (snd (checkExistingSession e allSessions s))))
      \<longrightarrow> (\<exists>y ys. allSessions = y # ys \<and> j = sess_id y \<and>
             (sess_status y = Booked \<or> sess_status y = Occupied)))"
proof (intro conjI impI)
  assume "open_sessions_query dev coll = x # rest \<and> sess_status x = Active \<and>
    sess_out_time x = Some (Date t) \<and>
    (\<forall>env \<in> set envs. deviceId_prop env = dev \<and> ssm_now env < t)"
  then show "session_writes (snd (polls envs coll st)) = []"
    using active_polls [of dev coll x rest t envs st] by blast
next
  assume "sess_status z = Active"
  then show "session_writes (snd (snd (checkExistingSession e' (z # zs) s'))) = []"
    by (simp add: existing_session_writes)
next
  assume "(i, active_patch) \<in> set (session_writes (snd (snd (checkForActiveSessions env coll' st'))))"
  then show "\<exists>y ys. open_sessions_query (deviceId_prop env) coll' = y # ys \<and> i = sess_id y \<and>
             (sess_status y = Booked \<or> sess_status y = Occupied \<or> sess_status y = Extended)"
    by (rule poll_active_write_only)
next
  assume "(j, active_patch) \<in> set (session_writes (snd (snd (checkExistingSession e allSessions s))))"
  then show "\<exists>y ys. allSessions = y # ys \<and> j = sess_id y \<and>
             (sess_status y = Booked \<or> sess_status y = Occupied)"
    by (cases allSessions) (auto simp: existing_session_writes split: if_splits)
qed

text \<open>
  C7 on the session \<open>s1\<close>: two checks on it as Active write nothing, neither does
  \<open>checkExistingSession\<close>; as Booked the polling check writes Active, and as Occupied
  \<open>checkExistingSession\<close> does. Two checks on it as Booked write once: the second finds
  it Active.
\<close>

theorem promote_to_active_witness:
  "session_writes (snd (polls [ex_poll 1000, ex_poll 31000] [ex_session Active]
       (ex_ssm_state False))) = []
   \<and> session_writes (snd (snd (checkExistingSession (ex_env 1000) [ex_session Active] ex_state)))
       = []
   \<and> (''s1'', active_patch) \<in> set (session_writes (snd (snd
         (checkForActiveSessions (ex_poll 1000) [ex_session Booked] (ex_ssm_state False)))))
   \<and> (''s1'', active_patch) \<in> set (session_writes (snd (snd
         (checkExistingSession (ex_env 1000) [ex_session Occupied] ex_state))))
   \<and> (\<exists>y ys. open_sessions_query ''pc1'' [ex_session Booked] = y # ys \<and> sess_status y = Booked)
   \<and> session_writes (snd (polls [ex_poll 1000, ex_poll 31000] [ex_session Booked]
       (ex_ssm_state False))) = [(''s1'', active_patch)]"
  using promote_to_active [of "''pc1''" "[ex_session Active]" "ex_session Active" "[]" 3600000
      "[ex_poll 1000, ex_poll 31000]" "ex_ssm_state False" "ex_session Active" "ex_env 1000" "[]"
      ex_state "''s1''" "ex_poll 1000" "[ex_session Booked]" "ex_ssm_state False" "''s1''"
      "ex_env 1000" "[ex_session Occupied]" ex_state]
  by (simp add: open_sessions_query_def ex_session_def ex_poll_def checkForActiveSessions_def
      checkExistingSession_def Let_def report_def ex_env_def ex_storage_def ex_state_def
      deviceId_from_localStorage_def store_update_def active_patch_def no_patch_def)

text \<open>
  C7 as stated, with Active written only for Booked or Occupied, fails for an Extended
  session with time left: the polling check writes status Active over it.
\<close>

theorem extended_promoted_counterexample:
  "session_writes (snd (snd (checkForActiveSessions (ex_poll 1000) [ex_session Extended]
       (ex_ssm_state False)))) = [(''s1'', active_patch)]
   \<and> sess_status (ex_session Extended) \<noteq> Booked
   \<and> sess_status (ex_session Extended) \<noteq> Occupied"
  by (simp add: open_sessions_query_def ex_session_def ex_poll_def checkForActiveSessions_def
      Let_def)

section \<open>Expiry under a client-app login\<close>

text \<open>
  What one check does when it reads \<open>isClientApp\<close> as true, finds an open session whose
  scheduled end is not after the current instant (whatever the calendar day), and the
  store accepts the update: one update of the session carrying the status Closed and
  no other field; the clearing of the auth store; the removal of the two persisted
  login items; the \<open>enable-kiosk-mode\<close> event with force; a reload after one second; and
  the report of an inactive session to the parent. No session log entry, no device
  update.
\<close>

lemma check_reading_client_app:
  assumes "deviceId_prop env \<noteq> []" and "sessions_getList_ok env"
    and "open_sessions_query (deviceId_prop env) coll = x # rest"
    and "sess_out_time x = Some (Date t)" and "t \<le> ssm_now env"
    and "isClientApp st" and "sessions_update_ok env"
  shows "snd (snd (checkForActiveSessions env coll st)) =
           [SessionUpdate (sess_id x)
              \<lparr>p_status = Some Closed, p_out_time = None, p_duration = None,
               p_amount_paid = None, p_discount_amount = None, p_discount_rate = None,
               p_session_total = None, p_total_amount = None\<rparr>,
            AuthStoreClear, RemoveItem ''user_login_info'', RemoveItem ''client_app_login'',
            DispatchKioskEvent ''client-session-expired'' True, SetTimeout 1000 [Reload]]
           @ report env False None"
    and "log_writes (snd (snd (checkForActiveSessions env coll st))) = []"
    and "device_writes (snd (snd (checkForActiveSessions env coll st))) = []"
    and "fst (checkForActiveSessions env coll st) = Some False"
proof -
  have "sess_status x \<noteq> Closed"
    using open_sessions_query_status [OF assms(3)] by auto
  then show "snd (snd (checkForActiveSessions env coll st)) =
           [SessionUpdate (sess_id x)
              \<lparr>p_status = Some Closed, p_out_time = None, p_duration = None,
               p_amount_paid = None, p_discount_amount = None, p_discount_rate = None,
               p_session_total = None, p_total_amount = None\<rparr>,
            AuthStoreClear, RemoveItem ''user_login_info'', RemoveItem ''client_app_login'',
            DispatchKioskEvent ''client-session-expired'' True, SetTimeout 1000 [Reload]]
           @ report env False None"
    and "log_writes (snd (snd (checkForActiveSessions env coll st))) = []"
    and "device_writes (snd (snd (checkForActiveSessions env coll st))) = []"
    and "fst (checkForActiveSessions env coll st) = Some False"
    using assms
    by (simp_all add: checkForActiveSessions_def Let_def closed_only_patch_def no_patch_def
        client_logout_def)
qed

text \<open>
  A check that reads \<open>isClientApp\<close> as false closes nothing and logs nobody out: the only
  update it can issue is the promotion to Active. It leaves \<open>isClientApp\<close> as it is.
\<close>

lemma check_not_reading_client_app:
  assumes "\<not> isClientApp st"
  shows "\<forall>w \<in> set (session_writes (snd (snd (checkForActiveSessions env coll st)))).
           snd w = active_patch"
    and "AuthStoreClear \<notin> set (snd (snd (checkForActiveSessions env coll st)))"
    and "\<not> isClientApp (fst (snd (checkForActiveSessions env coll st)))"
  using assms
  by (auto simp: checkForActiveSessions_def Let_def report_def
      split: if_splits list.splits option.splits js_date.splits)

lemma polls_not_reading_client_app:
  assumes "\<not> isClientApp st"
  shows "(\<forall>w \<in> set (session_writes (snd (polls envs coll st))). snd w = active_patch) \<and>
         AuthStoreClear \<notin> set (snd (polls envs coll st))"
  using assms
proof (induction envs arbitrary: coll st)
  case Nil
  then show ?case by simp
next
  case (Cons env envs)
  note step = check_not_reading_client_app [OF Cons.prems, of env coll]
  have "(\<forall>w \<in> set (session_writes (snd (polls envs
            (fold (store_update (sessions_update_ok env))
               (snd (snd (checkForActiveSessions env coll st))) coll)
            (fst (snd (checkForActiveSessions env coll st)))))). snd w = active_patch) \<and>
        AuthStoreClear \<notin> set (snd (polls envs
            (fold (store_update (sessions_update_ok env))
               (snd (snd (checkForActiveSessions env coll st))) coll)
            (fst (snd (checkForActiveSessions env coll st)))))"
    using Cons.IH [OF step(3)] .
  then show ?case
    using step(1,2) by (auto simp: Let_def)
qed

text \<open>
  So the polling of a mounted component never closes a session and never clears the
  auth store, whatever the persisted flag says: no update other than the promotion to
  Active, under a client-app login as without one.
\<close>

lemma polling_never_closes:
  "(\<forall>w \<in> set (session_writes (snd (polling_since_mount ls envs coll))). snd w = active_patch) \<and>
   AuthStoreClear \<notin> set (snd (polling_since_mount ls envs coll))"
  using polls_not_reading_client_app [of first_render envs coll]
  by (simp add: polling_since_mount_def Let_def first_render_def)

text \<open>
  C10 at a terminal whose persisted flag \<open>client_app_login\<close> is set when the component
  mounts. The session \<open>s1\<close> of \<open>pc1\<close> is Active and ended at 01:00; the component polls at
  01:01 and at 01:01:30 of the same day. Neither check writes to the session, clears
  the auth store, removes a persisted item, requests the kiosk lock or reloads: each
  only reports an inactive session to the parent, and \<open>s1\<close> is still Active in the store
  afterwards. The component's \<open>isClientApp\<close> is true by then, but the checks, which are
  those of the first render, do not read that value. A check that did read it would
  issue the Closed update and the logout, as the last equation shows.
\<close>

theorem polling_ignores_client_app_flag:
  "polling_since_mount (ex_storage\<lparr>client_app_login := True\<rparr>)
       [ex_poll 3660000, ex_poll 3690000] [ex_session Active] =
     (([ex_session Active],
       \<lparr>isChecking = False, sessionActive = False, sessionData = None, isClientApp = True\<rparr>),
      [OnSessionStateChange False None, OnSessionStateChange False None])
   \<and> snd (snd (checkForActiveSessions (ex_poll 3660000) [ex_session Active]
                 (ex_ssm_state True))) =
     [SessionUpdate ''s1''
        \<lparr>p_status = Some Closed, p_out_time = None, p_duration = None,
         p_amount_paid = None, p_discount_amount = None, p_discount_rate = None,
         p_session_total = None, p_total_amount = None\<rparr>,
      AuthStoreClear, RemoveItem ''user_login_info'', RemoveItem ''client_app_login'',
      DispatchKioskEvent ''client-session-expired'' True, SetTimeout 1000 [Reload],
      OnSessionStateChange False None]"
  by (simp add: polling_since_mount_def first_render_def checkForActiveSessions_def Let_def
      open_sessions_query_def ex_session_def ex_poll_def ex_ssm_state_def ex_storage_def
      report_def store_update_def client_logout_def closed_only_patch_def no_patch_def)

section \<open>Auto-login from a device token\<close>

text \<open>
  For a token whose payload has none of the id claims the check reports failure and
  never calls \<open>onAutoLogin\<close>.
\<close>

lemma no_user_id_no_login:
  assumes "tm_device env = Some dev" and "decode env (dev_token dev) = Payload c"
    and "token_userId c = []"
  shows "fst (checkDeviceTokenAndLogin env w) = False"
    and "snd (snd (checkDeviceTokenAndLogin env w)) = []"
  using assms
  by (simp_all add: checkDeviceTokenAndLogin_def login_valid_def login_manual_def Let_def)

text \<open>
  What such a check leaves in the auth store when the token is new, well formed and
  not expired, and the save returns: the pushed token with the parsed client record, or
  nothing when the client record is absent or does not parse. What the store held
  before does not enter.
\<close>

lemma no_user_id_auth_store:
  assumes "tm_deviceId env \<noteq> []" and "tm_device env = Some dev"
    and "dev_token dev \<noteq> []" and "dev_token dev \<noteq> lastCheckedToken w"
    and "decode env (dev_token dev) = Payload c" and "token_userId c = []"
    and "validateToken env (dev_token dev)" and "save_ok env"
  shows "authStore (fst (snd (checkDeviceTokenAndLogin env w))) =
           (if dev_client_record dev \<noteq> [] \<and> json_parses env (dev_client_record dev)
            then Some (dev_token dev, ClientRecord (dev_client_record dev)) else None)"
  using assms
  by (simp add: checkDeviceTokenAndLogin_def login_valid_def login_manual_def Let_def
      authStore_save_def)


section \<open>The kiosk lock\<close>

text \<open>
  C9, as the code has it. When the window calls succeed, a session-state change with an
  active session unlocks the terminal only if the user is logged in: the window becomes
  600 by 800, with a border, not always on top, not full screen, and the key listener is
  removed. With an active session and no logged-in user the window, the listener and the
  kiosk flag stay as they are. Without an active session the terminal is locked: the
  window fills the screen, borderless, always on top, maximized and full screen, and
  the listener is installed; it swallows every key event with Ctrl, Alt or Meta held and
  the Tab key.
\<close>

theorem kiosk_follows_session:
  assumes "setSize_ok os" and "setFullScreen_ok os" and "isFullScreen_ok os"
    and "exitFullScreen_ok os" and "center_ok os"
  shows "(isActive \<and> isLoggedIn a \<longrightarrow>
            \<not> isKioskMode (handleSessionStateChange os isActive d a) \<and>
            \<not> keyboardHandler (handleSessionStateChange os isActive d a) \<and>
            win (handleSessionStateChange os isActive d a) =
              \<lparr>width = 600, height = 800, resizable = False, borderless = False,
               alwaysOnTop = False, maximize = False, fullScreen = False\<rparr>) \<and>
         (\<not> isActive \<longrightarrow>
            isKioskMode (handleSessionStateChange os isActive d a) \<and>
            keyboardHandler (handleSessionStateChange os isActive d a) \<and>
            win (handleSessionStateChange os isActive d a) =
              \<lparr>width = screen_width os, height = screen_height os, resizable = False,
               borderless = True, alwaysOnTop = True, maximize = True, fullScreen = True\<rparr>) \<and>
         (isActive \<and> \<not> isLoggedIn a \<longrightarrow>
            isKioskMode (handleSessionStateChange os isActive d a) = isKioskMode a \<and>
            keyboardHandler (handleSessionStateChange os isActive d a) = keyboardHandler a \<and>
            win (handleSessionStateChange os isActive d a) = win a) \<and>
         (\<forall>k. blocked_key k = (ctrlKey k \<or> altKey k \<or> metaKey k \<or> key k = ''Tab''))"
  using assms
  by (simp add: handleSessionStateChange_def enableKioskMode_def disableKioskMode_def
      normal_window_def kiosk_window_def blocked_key_def Let_def)

text \<open>
  C9 on a locked terminal: with a logged-in user an active session unlocks it, no active
  session keeps it locked, and with nobody logged in an active session leaves it locked.
\<close>

theorem kiosk_follows_session_witness:
  "win (handleSessionStateChange ex_os True (Some (ex_session Active)) (ex_locked True)) =
     \<lparr>width = 600, height = 800, resizable = False, borderless = False,
      alwaysOnTop = False, maximize = False, fullScreen = False\<rparr>
   \<and> \<not> isKioskMode (handleSessionStateChange ex_os True (Some (ex_session Active))
          (ex_locked True))
   \<and> isKioskMode (handleSessionStateChange ex_os False None (ex_locked True))
   \<and> keyboardHandler (handleSessionStateChange ex_os False None (ex_locked True))
   \<and> isKioskMode (handleSessionStateChange ex_os True (Some (ex_session Active))
        (ex_locked False))"
  using kiosk_follows_session [of ex_os True "ex_locked True" "Some (ex_session Active)"]
    kiosk_follows_session [of ex_os False "ex_locked True" None]
    kiosk_follows_session [of ex_os True "ex_locked False" "Some (ex_session Active)"]
  by (simp add: ex_os_def ex_locked_def)

text \<open>
  C9 as stated, with an active session always unlocking, fails when nobody is logged in:
  the locked terminal stays locked, full screen, with the key listener in place.
\<close>

theorem active_not_logged_in_counterexample:
  "handleSessionStateChange ex_os True (Some (ex_session Active)) (ex_locked False) =
     (ex_locked False)\<lparr>hasActiveSession := True, activeSessionData := Some (ex_session Active)\<rparr>
   \<and> isKioskMode (ex_locked False) \<and> keyboardHandler (ex_locked False)
   \<and> fullScreen (win (ex_locked False))"
  by (simp add: handleSessionStateChange_def ex_locked_def)

end
